theory Spec2Isabelle
  imports Complex_Main "HOL-Library.Sublist" "HOL-Library.AList"
begin

section \<open>Python values, exceptions and strings\<close>

text \<open>
  The backend passes around Python \<^verbatim>\<open>dict\<close>s holding JSON-like values. A dict is an
  association list in insertion order with distinct keys. A \<^verbatim>\<open>str\<close> is a list of characters,
  each a code point below 256. \<open>PFmt t vs\<close> is the \<^verbatim>\<open>str\<close> an f-string builds from the
  template \<open>t\<close> (holes written \<^verbatim>\<open>{}\<close>) and the interpolated values \<open>vs\<close>; its
  characters are not computed. The status glyph that starts some log lines is not part of the
  template.
\<close>

datatype pyfloat = Finite real | NaN | PosInf | NegInf

datatype pyval =
    PNone
  | PBool bool
  | PInt int
  | PFloat pyfloat
  | PStr string
  | PFmt string "pyval list"
  | PList "pyval list"
  | PDict "(string \<times> pyval) list"

type_synonym pydict = "(string \<times> pyval) list"

text \<open>
  \<open>HTTPException status detail\<close> is FastAPI's exception; \<open>PyException cls msg\<close> is any other
  exception, with the name of its class and \<^verbatim>\<open>str(e)\<close>.
\<close>

datatype py_exception = HTTPException nat string | PyException string string

fun exc_str :: "py_exception \<Rightarrow> string" where
  "exc_str (HTTPException code detail) = detail"
| "exc_str (PyException cls msg) = msg"

definition ebind :: "py_exception + 'a \<Rightarrow> ('a \<Rightarrow> py_exception + 'b) \<Rightarrow> py_exception + 'b" where
  "ebind m f = (case m of Inl e \<Rightarrow> Inl e | Inr x \<Rightarrow> f x)"

text \<open>\<^verbatim>\<open>bool(v)\<close>: Python truthiness. Every f-string of the program has literal text.\<close>

fun truthy :: "pyval \<Rightarrow> bool" where
  "truthy PNone = False"
| "truthy (PBool b) = b"
| "truthy (PInt n) = (n \<noteq> 0)"
| "truthy (PFloat f) = (f \<noteq> Finite 0)"
| "truthy (PStr s) = (s \<noteq> [])"
| "truthy (PFmt t vs) = True"
| "truthy (PList vs) = (vs \<noteq> [])"
| "truthy (PDict d) = (d \<noteq> [])"

text \<open>\<^verbatim>\<open>d.get(k, default)\<close> on a dict, and on any value (only a dict has \<^verbatim>\<open>get\<close>).\<close>

definition dict_get :: "pydict \<Rightarrow> string \<Rightarrow> pyval \<Rightarrow> pyval" where
  "dict_get d k dflt = (case map_of d k of Some v \<Rightarrow> v | None \<Rightarrow> dflt)"

fun py_get :: "pyval \<Rightarrow> string \<Rightarrow> pyval \<Rightarrow> py_exception + pyval" where
  "py_get (PDict d) k dflt = Inr (dict_get d k dflt)"
| "py_get v k dflt = Inl (PyException ''AttributeError'' ''object has no attribute get'')"

text \<open>
  \<^verbatim>\<open>str.isspace\<close> of one character, which is also what \<^verbatim>\<open>\s\<close> matches in a \<^verbatim>\<open>str\<close>
  pattern: tab to carriage return, the four separators 0x1C to 0x1F, space, NEL and the
  no-break space.
\<close>

definition isspace :: "char \<Rightarrow> bool" where
  "isspace c = ((of_char c :: nat) \<in> {9, 10, 11, 12, 13, 28, 29, 30, 31, 32, 133, 160})"

definition strip :: "string \<Rightarrow> string" where
  "strip s = rev (dropWhile isspace (rev (dropWhile isspace s)))"

text \<open>\<^verbatim>\<open>s.split()\<close>: the maximal runs of characters that are not whitespace.\<close>

fun split_from :: "string \<Rightarrow> string \<Rightarrow> string list" where
  "split_from cur [] = (if cur = [] then [] else [rev cur])"
| "split_from cur (c # cs) =
     (if isspace c then (if cur = [] then split_from [] cs else rev cur # split_from [] cs)
      else split_from (c # cur) cs)"

definition split_ws :: "string \<Rightarrow> string list" where
  "split_ws s = split_from [] s"

text \<open>
  \<^verbatim>\<open>str.lower\<close> of one character: the ASCII capitals and the capitals of Latin-1 (0xC0 to
  0xDE, but not the multiplication sign 0xD7) move up by 32.
\<close>

definition lower_char :: "char \<Rightarrow> char" where
  "lower_char c =
     (let n = (of_char c :: nat)
      in if (65 \<le> n \<and> n \<le> 90) \<or> (192 \<le> n \<and> n \<le> 222 \<and> n \<noteq> 215) then char_of (n + 32) else c)"

definition lower :: "string \<Rightarrow> string" where
  "lower s = map lower_char s"

text \<open>\<^verbatim>\<open>needle in hay\<close> on strings.\<close>

fun str_contains :: "string \<Rightarrow> string \<Rightarrow> bool" where
  "str_contains needle [] = (needle = [])"
| "str_contains needle (c # cs) = (prefix needle (c # cs) \<or> str_contains needle cs)"

text \<open>\<^verbatim>\<open>s[:n] + "..." if len(s) > n else s\<close>, the preview the responses carry.\<close>

definition preview :: "nat \<Rightarrow> string \<Rightarrow> string" where
  "preview n s = (if length s > n then take n s @ ''...'' else s)"

section \<open>The intent classifier (agents/intent\_classifier.py)\<close>

text \<open>
  The hosted model and the builtins the classifier calls are parameters:
  \<open>llm_json p\<close> is \<^verbatim>\<open>json.loads(call_llm(messages, ...))\<close> for the prompt \<open>p\<close>, either the
  exception one of the two calls raised or the decoded value; \<open>float_of_int\<close> and
  \<open>float_of_str\<close> are \<^verbatim>\<open>float\<close> on an \<^verbatim>\<open>int\<close> (which can overflow) and on a
  \<^verbatim>\<open>str\<close> (which can fail to parse).
\<close>

record classifier_env =
  llm_json :: "pyval \<Rightarrow> py_exception + pyval"
  float_of_int :: "int \<Rightarrow> py_exception + pyfloat"
  float_of_str :: "string \<Rightarrow> py_exception + pyfloat"

fun py_float :: "classifier_env \<Rightarrow> pyval \<Rightarrow> py_exception + pyfloat" where
  "py_float env (PFloat f) = Inr f"
| "py_float env (PInt n) = float_of_int env n"
| "py_float env (PBool b) = Inr (Finite (if b then 1 else 0))"
| "py_float env (PStr s) = float_of_str env s"
| "py_float env (PFmt t vs) = Inl (PyException ''ValueError'' ''could not convert string to float'')"
| "py_float env v = Inl (PyException ''TypeError'' ''float() argument must be a string or a real number'')"

text \<open>
  The prompt interpolates the first 800 characters of the extracted text and the user query,
  or \<^verbatim>\<open>None provided\<close> when the query is \<^verbatim>\<open>None\<close> or empty.
\<close>

definition classify_prompt :: "string \<Rightarrow> string option \<Rightarrow> pyval" where
  "classify_prompt extracted_text user_query =
     PFmt ''You are an intent classifier ... Extracted Content (first 800 chars): {} User Query: {} ...''
       [PStr (take 800 extracted_text),
        PStr (case user_query of
                None \<Rightarrow> ''None provided''
              | Some q \<Rightarrow> if q \<noteq> [] then q else ''None provided'')]"

text \<open>
  The result of \<^verbatim>\<open>classify\<close>. Both \<^verbatim>\<open>return\<close> statements build a dict literal with the
  same six keys and no caller adds or removes a key, so the dict is a record of its six values.
\<close>

record classification =
  intent :: pyval
  confidence :: pyfloat
  needs_clarification :: bool
  clarification_question :: pyval
  reasoning :: pyval
  success :: bool

definition get_fallback_intent :: classification where
  "get_fallback_intent =
     \<lparr>intent = PStr ''unknown'',
      confidence = Finite 0,
      needs_clarification = True,
      clarification_question =
        PStr (''I couldn't determine what you'd like me to do. Could you please specify? '' @
              ''For example: 'summarize this', 'analyze sentiment', 'explain this code', '' @
              ''or ask a specific question.''),
      reasoning = PStr ''Classification service unavailable - requesting user clarification'',
      success = False\<rparr>"

text \<open>The body of the \<^verbatim>\<open>try\<close> block of \<^verbatim>\<open>classify\<close>.\<close>

definition classify_try :: "classifier_env \<Rightarrow> string \<Rightarrow> string option \<Rightarrow> py_exception + classification" where
  "classify_try env extracted_text user_query =
     ebind (llm_json env (classify_prompt extracted_text user_query)) (\<lambda>intent_data.
     ebind (py_get intent_data ''intent'' (PStr ''unknown'')) (\<lambda>intent_v.
     ebind (py_get intent_data ''confidence'' (PFloat (Finite 0))) (\<lambda>conf.
     ebind (py_float env conf) (\<lambda>confidence_v.
     ebind (py_get intent_data ''needs_clarification'' (PBool False)) (\<lambda>needs.
     ebind (py_get intent_data ''clarification_question'' PNone) (\<lambda>question.
     ebind (py_get intent_data ''reasoning'' (PStr ''No reasoning provided'')) (\<lambda>reasoning_v.
     Inr \<lparr>intent = intent_v,
          confidence = confidence_v,
          needs_clarification = truthy needs,
          clarification_question = question,
          reasoning = reasoning_v,
          success = True\<rparr>)))))))"

text \<open>
  \<^verbatim>\<open>classify\<close>: the \<^verbatim>\<open>except\<close> clause catches every exception of the body and returns
  the fallback.
\<close>

definition classify :: "classifier_env \<Rightarrow> string \<Rightarrow> string option \<Rightarrow> classification" where
  "classify env extracted_text user_query =
     (case classify_try env extracted_text user_query of
        Inl e \<Rightarrow> get_fallback_intent
      | Inr r \<Rightarrow> r)"

section \<open>The task router (agents/task\_router.py)\<close>

text \<open>
  The four task functions the router imports are parameters: each returns a value or raises.
  (In the repository each of them catches its own exceptions; the router does not rely on it.)
\<close>

record task_env =
  summarize_text :: "string \<Rightarrow> py_exception + pyval"
  analyze_sentiment :: "string \<Rightarrow> py_exception + pyval"
  explain_code :: "string \<Rightarrow> py_exception + pyval"
  answer_question :: "string \<Rightarrow> string \<Rightarrow> py_exception + pyval"

type_synonym handler = "task_env \<Rightarrow> string \<Rightarrow> string option \<Rightarrow> py_exception + pydict"

definition handle_text_extraction :: handler where
  "handle_text_extraction env content user_query =
     Inr [(''result_type'', PStr ''text_extraction''),
          (''extracted_text'', PStr content),
          (''character_count'', PInt (int (length content))),
          (''word_count'', PInt (int (length (split_ws content)))),
          (''success'', PBool True)]"

definition handle_youtube :: handler where
  "handle_youtube env content user_query =
     Inr [(''result_type'', PStr ''youtube_transcript''),
          (''transcript'', PStr content),
          (''note'', PStr ''YouTube transcript has been extracted''),
          (''success'', PBool True)]"

definition handle_summarization :: handler where
  "handle_summarization env content user_query =
     ebind (summarize_text env content) (\<lambda>summary_result.
     ebind (py_get summary_result ''success'' (PBool False)) (\<lambda>ok.
     Inr [(''result_type'', PStr ''summarization''),
          (''summary'', summary_result),
          (''success'', ok)]))"

definition handle_sentiment :: handler where
  "handle_sentiment env content user_query =
     ebind (analyze_sentiment env content) (\<lambda>sentiment_result.
     ebind (py_get sentiment_result ''success'' (PBool False)) (\<lambda>ok.
     Inr [(''result_type'', PStr ''sentiment_analysis''),
          (''sentiment'', sentiment_result),
          (''success'', ok)]))"

definition handle_code :: handler where
  "handle_code env content user_query =
     ebind (explain_code env content) (\<lambda>code_result.
     ebind (py_get code_result ''success'' (PBool False)) (\<lambda>ok.
     Inr [(''result_type'', PStr ''code_explanation''),
          (''analysis'', code_result),
          (''success'', ok)]))"

definition handle_qa :: handler where
  "handle_qa env content user_query =
     ebind (case user_query of
              Some q \<Rightarrow>
                if q \<noteq> [] then answer_question env q content
                else answer_question env ''Can you help me understand this content?'' content
            | None \<Rightarrow> answer_question env ''Can you help me understand this content?'' content)
       (\<lambda>qa_result.
     ebind (py_get qa_result ''success'' (PBool False)) (\<lambda>ok.
     Inr [(''result_type'', PStr ''qa''),
          (''response'', qa_result),
          (''success'', ok)]))"

definition handle_unknown :: handler where
  "handle_unknown env content user_query =
     Inr [(''result_type'', PStr ''unknown''),
          (''message'',
             PStr ''I'm not sure what you'd like me to do. Please provide more specific instructions.''),
          (''content_preview'', PStr (preview 200 content)),
          (''success'', PBool False)]"

definition task_map :: "(string \<times> handler) list" where
  "task_map =
     [(''text_extraction'', handle_text_extraction),
      (''youtube_transcript'', handle_youtube),
      (''summarization'', handle_summarization),
      (''sentiment_analysis'', handle_sentiment),
      (''code_explanation'', handle_code),
      (''qa'', handle_qa),
      (''unknown'', handle_unknown)]"

text \<open>
  \<^verbatim>\<open>self.task_map.get(intent, self._handle_unknown)\<close>. The intent is whatever the classifier
  passed on: a list or a dict cannot be hashed, and the lookup raises \<^verbatim>\<open>TypeError\<close> before
  the \<^verbatim>\<open>try\<close> block is entered; a value that is not a \<^verbatim>\<open>str\<close> equals no key.
\<close>

fun hashable :: "pyval \<Rightarrow> bool" where
  "hashable (PList vs) = False"
| "hashable (PDict d) = False"
| "hashable v = True"

fun task_map_get :: "pyval \<Rightarrow> handler" where
  "task_map_get (PStr s) = (case map_of task_map s of Some h \<Rightarrow> h | None \<Rightarrow> handle_unknown)"
| "task_map_get v = handle_unknown"

definition execute :: "task_env \<Rightarrow> pyval \<Rightarrow> string \<Rightarrow> string option \<Rightarrow> py_exception + pydict" where
  "execute env intent_v content user_query =
     (if \<not> hashable intent_v then Inl (PyException ''TypeError'' ''unhashable type'')
      else
        (case task_map_get intent_v env content user_query of
           Inr result \<Rightarrow> Inr (AList.update ''task_type'' intent_v result)
         | Inl e \<Rightarrow>
             Inr [(''task_type'', intent_v),
                  (''success'', PBool False),
                  (''error'', PStr (exc_str e)),
                  (''message'', PFmt ''Failed to execute {} task'' [intent_v])]))"

section \<open>YouTube links (extractors/youtube\_extractor.py)\<close>

text \<open>
  The two patterns use literals, \<^verbatim>\<open>?\<close>, \<^verbatim>\<open>|\<close>, groups and \<^verbatim>\<open>+\<close> on a character
  class. \<open>rmatch r s\<close> lists the ways \<open>r\<close> matches a prefix of \<open>s\<close>, each with the groups
  it captured, in the order a backtracking matcher tries them: the left alternative first, the
  optional part present first, the longest repetition first. Under \<^verbatim>\<open>re.IGNORECASE\<close> a
  literal matches a character with the same lower case.
\<close>

datatype regex =
    Eps
  | Chr char
  | Seq regex regex
  | Alt regex regex
  | Opt regex
  | Plus "char \<Rightarrow> bool"
  | Group nat regex

type_synonym groups = "(nat \<times> string) list"

fun lit :: "string \<Rightarrow> regex" where
  "lit [] = Eps"
| "lit (c # cs) = Seq (Chr c) (lit cs)"

fun rmatch :: "regex \<Rightarrow> string \<Rightarrow> (string \<times> groups) list" where
  "rmatch Eps s = [([], [])]"
| "rmatch (Chr c) s =
     (case s of
        [] \<Rightarrow> []
      | x # xs \<Rightarrow> if lower_char x = lower_char c then [([x], [])] else [])"
| "rmatch (Seq r1 r2) s =
     concat (map (\<lambda>(m1, g1). map (\<lambda>(m2, g2). (m1 @ m2, g1 @ g2)) (rmatch r2 (drop (length m1) s)))
                 (rmatch r1 s))"
| "rmatch (Alt r1 r2) s = rmatch r1 s @ rmatch r2 s"
| "rmatch (Opt r) s = rmatch r s @ [([], [])]"
| "rmatch (Plus cls) s = map (\<lambda>n. (take n s, [])) (rev [1..<Suc (length (takeWhile cls s))])"
| "rmatch (Group n r) s = map (\<lambda>(m, g). (m, g @ [(n, m)])) (rmatch r s)"

text \<open>
  \<^verbatim>\<open>re.search\<close>: the first match at the leftmost position that has one, as the whole match
  \<^verbatim>\<open>group(0)\<close> and the numbered groups.
\<close>

fun re_search :: "regex \<Rightarrow> string \<Rightarrow> (string \<times> groups) option" where
  "re_search r [] = (case rmatch r [] of m # ms \<Rightarrow> Some m | [] \<Rightarrow> None)"
| "re_search r (c # cs) = (case rmatch r (c # cs) of m # ms \<Rightarrow> Some m | [] \<Rightarrow> re_search r cs)"

text \<open>
  \<^verbatim>\<open>(https?://)?(www\.)?(youtube\.com/watch\?v=|youtu\.be/|youtube\.com/embed/)\<close>, the part
  the two patterns share.
\<close>

definition youtube_head :: regex where
  "youtube_head =
     Seq (Opt (Group 1 (Seq (lit ''http'') (Seq (Opt (Chr CHR ''s'')) (lit ''://'')))))
    (Seq (Opt (Group 2 (lit ''www.'')))
         (Group 3 (Alt (lit ''youtube.com/watch?v='')
                  (Alt (lit ''youtu.be/'') (lit ''youtube.com/embed/'')))))"

text \<open>The pattern of \<^verbatim>\<open>is_youtube_url\<close> ends in \<^verbatim>\<open>[^\s]+\<close>.\<close>

definition detect_pattern :: regex where
  "detect_pattern = Seq youtube_head (Plus (\<lambda>c. \<not> isspace c))"

text \<open>The pattern of \<^verbatim>\<open>extract_youtube_url\<close> ends in the group \<^verbatim>\<open>([^\s&]+)\<close>.\<close>

definition extract_pattern :: regex where
  "extract_pattern = Seq youtube_head (Group 4 (Plus (\<lambda>c. \<not> isspace c \<and> c \<noteq> CHR ''&'')))"

definition is_youtube_url :: "string \<Rightarrow> bool" where
  "is_youtube_url text = (re_search detect_pattern text \<noteq> None)"

text \<open>\<^verbatim>\<open>match.group(n)\<close> inside an f-string: a group that took no part prints as \<^verbatim>\<open>None\<close>.\<close>

definition group_str :: "groups \<Rightarrow> nat \<Rightarrow> string" where
  "group_str gs n = (case map_of gs n of Some v \<Rightarrow> v | None \<Rightarrow> ''None'')"

definition extract_youtube_url :: "string \<Rightarrow> string" where
  "extract_youtube_url text =
     (case re_search extract_pattern text of
        Some (group0, gs) \<Rightarrow>
          if str_contains ''youtu.be'' group0 then ''https://www.youtube.com/watch?v='' @ group_str gs 4
          else if prefix ''http'' group0 then group0
          else ''https://'' @ group0
      | None \<Rightarrow> [])"

section \<open>The application (app.py)\<close>

text \<open>
  An extractor returns a dict with \<^verbatim>\<open>success\<close>, \<^verbatim>\<open>text\<close>, an \<^verbatim>\<open>error\<close> on failure
  and further keys of its own (\<^verbatim>\<open>method\<close>, \<^verbatim>\<open>confidence\<close>, \<^verbatim>\<open>pages\<close>, \<^verbatim>\<open>language\<close>,
  \<^verbatim>\<open>duration\<close>, \<^verbatim>\<open>title\<close>), read here through \<open>ext_info\<close>. The extractors themselves
  (OCR, PDF parsing, transcription, the transcript fetch) are parameters.
\<close>

record extraction =
  ext_success :: bool
  ext_text :: string
  ext_info :: "string \<Rightarrow> pyval"
  ext_error :: "string option"

record extractor_env =
  extract_from_image :: "string \<Rightarrow> extraction"
  extract_from_pdf :: "string \<Rightarrow> extraction"
  extract_from_audio :: "string \<Rightarrow> string \<Rightarrow> extraction"
  extract_youtube_transcript :: "string \<Rightarrow> extraction"

record app_env =
  classifier :: classifier_env
  tasks :: task_env
  extractors :: extractor_env

record upload_file =
  filename :: string
  file_bytes :: string

text \<open>
  \<^verbatim>\<open>conversation_contexts\<close> maps a session id to the stored context. \<open>calls\<close> is not a
  variable of the program: it records, in order, each call of \<^verbatim>\<open>intent_classifier.classify\<close>
  and of \<^verbatim>\<open>task_router.execute\<close> with its arguments, so that a theorem can say which
  calls a request made.
\<close>

record session_context =
  extracted_content :: string
  extraction_metadata :: pydict

datatype call = ClassifyCall string "string option" | ExecuteCall pyval string "string option"

record app_state =
  conversation_contexts :: "string \<rightharpoonup> session_context"
  calls :: "call list"

text \<open>
  \<open>JSONResponse content status_code\<close> is a response that was built; the status code is 200
  unless given. Building one serialises the content with \<^verbatim>\<open>allow_nan=False\<close>, which raises
  \<^verbatim>\<open>ValueError\<close> when a float of the content is NaN or infinite: \<open>json_response\<close> is
  the call \<^verbatim>\<open>JSONResponse(content, status_code)\<close>. Every other value of the program
  serialises; an f-string is a \<^verbatim>\<open>str\<close> whatever it interpolates.
\<close>

datatype response = JSONResponse pydict nat

fun json_safe :: "pyval \<Rightarrow> bool" where
  "json_safe (PFloat f) = (case f of Finite x \<Rightarrow> True | NaN \<Rightarrow> False | PosInf \<Rightarrow> False | NegInf \<Rightarrow> False)"
| "json_safe (PList vs) = list_all json_safe vs"
| "json_safe (PDict d) = list_all (\<lambda>kv. json_safe (snd kv)) d"
| "json_safe v = True"

definition json_response :: "pydict \<Rightarrow> nat \<Rightarrow> py_exception + response" where
  "json_response content status_code =
     (if json_safe (PDict content) then Inr (JSONResponse content status_code)
      else Inl (PyException ''ValueError'' ''Out of range float values are not JSON compliant''))"

definition endswith :: "string \<Rightarrow> string list \<Rightarrow> bool" where
  "endswith s sufs = list_ex (\<lambda>x. suffix x s) sufs"

definition error_or_unknown :: "extraction \<Rightarrow> pyval" where
  "error_or_unknown result = PStr (case ext_error result of Some e \<Rightarrow> e | None \<Rightarrow> ''Unknown error'')"

text \<open>
  Step 1 of \<^verbatim>\<open>process_input\<close>, content extraction: the extracted content with its
  metadata, or the \<^verbatim>\<open>HTTPException\<close> the step raises, and the log lines so far.
\<close>

definition extract_content ::
  "extractor_env \<Rightarrow> string option \<Rightarrow> upload_file option \<Rightarrow> pyval list
     \<Rightarrow> (py_exception + string \<times> pydict) \<times> pyval list" where
  "extract_content env text file logs =
     (case file of
        Some f \<Rightarrow>
          (let fname = lower (filename f);
               logs1 = logs @ [PFmt ''Received file: {}'' [PStr (filename f)]]
           in if endswith fname [''.png'', ''.jpg'', ''.jpeg'', ''.bmp'', ''.gif''] then
                (let logs2 = logs1 @ [PStr ''Extracting text from image using OCR...''];
                     result = extract_from_image env (file_bytes f)
                 in if ext_success result then
                      (Inr (ext_text result,
                            [(''type'', PStr ''image''),
                             (''method'', ext_info result ''method''),
                             (''confidence'', ext_info result ''confidence'')]),
                       logs2 @ [PFmt ''OCR completed (confidence: {}%)'' [ext_info result ''confidence'']])
                    else
                      (Inl (HTTPException 400 ''Image extraction failed''),
                       logs2 @ [PFmt ''OCR failed: {}'' [error_or_unknown result]]))
              else if endswith fname [''.pdf''] then
                (let logs2 = logs1 @ [PStr ''Extracting text from PDF...''];
                     result = extract_from_pdf env (file_bytes f)
                 in if ext_success result then
                      (Inr (ext_text result,
                            [(''type'', PStr ''pdf''),
                             (''method'', ext_info result ''method''),
                             (''pages'', ext_info result ''pages'')]),
                       logs2 @ [PFmt ''PDF extraction completed ({} pages, method: {})''
                                  [ext_info result ''pages'', ext_info result ''method'']])
                    else
                      (Inl (HTTPException 400 ''PDF extraction failed''),
                       logs2 @ [PFmt ''PDF extraction failed: {}'' [error_or_unknown result]]))
              else if endswith fname [''.mp3'', ''.wav'', ''.m4a'', ''.ogg'', ''.flac''] then
                (let logs2 = logs1 @ [PStr ''Transcribing audio using Whisper...''];
                     result = extract_from_audio env (file_bytes f) fname
                 in if ext_success result then
                      (Inr (ext_text result,
                            [(''type'', PStr ''audio''),
                             (''language'', ext_info result ''language''),
                             (''duration'', ext_info result ''duration'')]),
                       logs2 @ [PFmt ''Audio transcribed ({}s, language: {})''
                                  [ext_info result ''duration'', ext_info result ''language'']])
                    else
                      (Inl (HTTPException 400 ''Audio transcription failed''),
                       logs2 @ [PFmt ''Audio transcription failed: {}'' [error_or_unknown result]]))
              else
                (Inl (HTTPException 400 (''Unsupported file type: '' @ fname)),
                 logs1 @ [PFmt ''Unsupported file type: {}'' [PStr fname]]))
      | None \<Rightarrow>
          (let t = (case text of Some t \<Rightarrow> t | None \<Rightarrow> [])
           in if t \<noteq> [] then
                (if is_youtube_url t then
                   (let logs1 = logs @ [PStr ''Detected YouTube URL, fetching transcript...''];
                        url = extract_youtube_url t;
                        result = extract_youtube_transcript env url
                    in if ext_success result then
                         (Inr (ext_text result,
                               [(''type'', PStr ''youtube''),
                                (''title'', ext_info result ''title''),
                                (''duration'', ext_info result ''duration'')]),
                          logs1 @ [PFmt ''YouTube transcript fetched: {}'' [ext_info result ''title'']])
                       else
                         (Inr (t, [(''type'', PStr ''text'')]),
                          logs1 @ [PFmt ''YouTube transcript unavailable: {}'' [error_or_unknown result]]))
                 else
                   (Inr (t, [(''type'', PStr ''text'')]), logs @ [PStr ''Processing text input...'']))
              else
                (Inl (HTTPException 400 ''No input provided (text or file required)''),
                 logs @ [PStr ''No input provided''])))"

text \<open>The response of the outermost \<^verbatim>\<open>except Exception\<close> clause of both endpoints.\<close>

definition server_error :: "py_exception \<Rightarrow> pyval list \<Rightarrow> response" where
  "server_error e logs =
     JSONResponse
       [(''status'', PStr ''error''),
        (''message'', PStr (exc_str e)),
        (''logs'', PList (logs @ [PFmt ''Error: {}'' [PStr (exc_str e)]]))]
       500"

text \<open>
  \<^verbatim>\<open>return JSONResponse(content)\<close> inside the \<^verbatim>\<open>try\<close> block of an endpoint, where
  \<open>logs\<close> is the log at that point: when building the response raises, the
  \<^verbatim>\<open>except Exception\<close> clause answers instead. (The response of that clause holds strings
  only and is always built.)
\<close>

definition respond :: "pydict \<Rightarrow> pyval list \<Rightarrow> response" where
  "respond content logs =
     (case json_response content 200 of
        Inr r \<Rightarrow> r
      | Inl e \<Rightarrow> server_error e logs)"

text \<open>
  \<^verbatim>\<open>process_input(text, file, session_id)\<close>: the response, or the \<^verbatim>\<open>HTTPException\<close>
  that leaves the endpoint, and the state after the request.
\<close>

definition process_input ::
  "app_env \<Rightarrow> app_state \<Rightarrow> string option \<Rightarrow> upload_file option \<Rightarrow> string
     \<Rightarrow> (py_exception + response) \<times> app_state" where
  "process_input env st text file session_id =
     (case extract_content (extractors env) text file [PStr ''Processing your request...''] of
        (Inl e, logs) \<Rightarrow> (Inl e, st)
      | (Inr (content, metadata), logs) \<Rightarrow>
          if content = [] \<or> length (strip content) < 5 then
            (let logs1 = logs @ [PStr ''Warning: Very little content extracted'']
             in (Inr (respond
                        [(''status'', PStr ''error''),
                         (''message'', PStr ''Could not extract meaningful content from input''),
                         (''logs'', PList logs1)]
                        logs1),
                 st))
          else
            (let logs1 = logs @ [PStr ''Analyzing your intent...''];
                 intent_result = classify (classifier env) content text;
                 st1 = st\<lparr>calls := calls st @ [ClassifyCall content text]\<rparr>;
                 logs2 = logs1 @
                   [if \<not> success intent_result
                    then PStr ''Intent classification failed, requesting clarification''
                    else PFmt ''Intent identified: {} (confidence: {:.2f})''
                           [intent intent_result, PFloat (confidence intent_result)]]
             in if needs_clarification intent_result then
                  (let logs3 = logs2 @ [PStr ''Clarification needed from user''];
                       st2 = st1\<lparr>conversation_contexts := (conversation_contexts st1)
                               (session_id \<mapsto>
                                  \<lparr>extracted_content = content, extraction_metadata = metadata\<rparr>)\<rparr>
                   in (Inr (respond
                              [(''status'', PStr ''needs_clarification''),
                               (''extracted_content'', PStr (preview 500 content)),
                               (''extraction_metadata'', PDict metadata),
                               (''question'', clarification_question intent_result),
                               (''reasoning'', reasoning intent_result),
                               (''logs'', PList logs3),
                               (''session_id'', PStr session_id)]
                              logs3),
                       st2))
                else
                  (let logs3 = logs2 @ [PFmt ''Executing task: {}...'' [intent intent_result]];
                       st2 = st1\<lparr>calls := calls st1 @ [ExecuteCall (intent intent_result) content text]\<rparr>
                   in case execute (tasks env) (intent intent_result) content text of
                        Inl e \<Rightarrow> (Inr (server_error e logs3), st2)
                      | Inr final_result \<Rightarrow>
                          (let logs4 = logs3 @
                                 [if truthy (dict_get final_result ''success'' PNone)
                                  then PStr ''Task completed successfully''
                                  else PStr ''Task completed with warnings'']
                           in (Inr (respond
                                      [(''status'', PStr ''success''),
                                       (''extracted_content'', PStr (preview 1000 content)),
                                       (''extraction_metadata'', PDict metadata),
                                       (''intent'',
                                          PDict [(''type'', intent intent_result),
                                                 (''confidence'', PFloat (confidence intent_result)),
                                                 (''reasoning'', reasoning intent_result)]),
                                       (''result'', PDict final_result),
                                       (''logs'', PList logs4)]
                                      logs4),
                               st2)))))"

text \<open>
  \<^verbatim>\<open>clarify_intent(clarification, session_id)\<close>. The stored context is deleted before the
  \<^verbatim>\<open>success\<close> response is built.
\<close>

definition clarify_intent ::
  "app_env \<Rightarrow> app_state \<Rightarrow> string \<Rightarrow> string \<Rightarrow> (py_exception + response) \<times> app_state" where
  "clarify_intent env st clarification session_id =
     (case conversation_contexts st session_id of
        None \<Rightarrow>
          (Inl (HTTPException 400 ''Session expired or invalid. Please resubmit your input.''), st)
      | Some ctx \<Rightarrow>
          (let content = extracted_content ctx;
               metadata = extraction_metadata ctx;
               logs1 = [PStr ''Processing your clarification...'',
                        PStr ''Re-analyzing intent with your clarification...''];
               intent_result = classify (classifier env) content (Some clarification);
               st1 = st\<lparr>calls := calls st @ [ClassifyCall content (Some clarification)]\<rparr>
           in if needs_clarification intent_result then
                (let logs2 = logs1 @ [PStr ''Still need more clarification'']
                 in (Inr (respond
                            [(''status'', PStr ''needs_clarification''),
                             (''question'', clarification_question intent_result),
                             (''logs'', PList logs2)]
                            logs2),
                     st1))
              else
                (let logs2 = logs1 @
                       [PFmt ''Intent clarified: {}'' [intent intent_result],
                        PFmt ''Executing task: {}...'' [intent intent_result]];
                     st2 = st1\<lparr>calls := calls st1 @
                             [ExecuteCall (intent intent_result) content (Some clarification)]\<rparr>
                 in case execute (tasks env) (intent intent_result) content (Some clarification) of
                      Inl e \<Rightarrow> (Inr (server_error e logs2), st2)
                    | Inr final_result \<Rightarrow>
                        (let logs3 = (if truthy (dict_get final_result ''success'' PNone)
                                      then logs2 @ [PStr ''Task completed successfully'']
                                      else logs2);
                             st3 = st2\<lparr>conversation_contexts :=
                                     (conversation_contexts st2)(session_id := None)\<rparr>
                         in (Inr (respond
                                    [(''status'', PStr ''success''),
                                     (''extracted_content'', PStr (preview 1000 content)),
                                     (''extraction_metadata'', PDict metadata),
                                     (''intent'',
                                        PDict [(''type'', intent intent_result),
                                               (''confidence'', PFloat (confidence intent_result))]),
                                     (''result'', PDict final_result),
                                     (''logs'', PList logs3)]
                                    logs3),
                             st3)))))"

text \<open>
  \<open>nows r\<close>: no literal and no character class of \<open>r\<close> matches a whitespace character.
  Both patterns are of this kind.
\<close>

fun nows :: "regex \<Rightarrow> bool" where
  "nows Eps = True"
| "nows (Chr c) = (\<not> isspace (lower_char c))"
| "nows (Seq r1 r2) = (nows r1 \<and> nows r2)"
| "nows (Alt r1 r2) = (nows r1 \<and> nows r2)"
| "nows (Opt r) = nows r"
| "nows (Plus cls) = (\<forall>c. cls c \<longrightarrow> \<not> isspace c)"
| "nows (Group n r) = nows r"

section \<open>Sequences of requests and example collaborators\<close>

text \<open>
  Clarify requests for one session handled one after another, each with the collaborators as
  they behave during that request: the state after the last one.
\<close>

fun clarify_rounds :: "app_state \<Rightarrow> string \<Rightarrow> (app_env \<times> string) list \<Rightarrow> app_state" where
  "clarify_rounds st session_id [] = st"
| "clarify_rounds st session_id ((env, clarification) # rounds) =
     clarify_rounds (snd (clarify_intent env st clarification session_id)) session_id rounds"

text \<open>The payload of a response, its keys, and one of its values.\<close>

fun payload :: "py_exception + response \<Rightarrow> pydict" where
  "payload (Inr (JSONResponse d code)) = d"
| "payload (Inl e) = []"

definition response_keys :: "py_exception + response \<Rightarrow> string list" where
  "response_keys r = map fst (payload r)"

definition response_field :: "py_exception + response \<Rightarrow> string \<Rightarrow> pyval option" where
  "response_field r k = map_of (payload r) k"

fun result_field :: "py_exception + pydict \<Rightarrow> string \<Rightarrow> pyval option" where
  "result_field (Inr d) k = map_of d k"
| "result_field (Inl e) k = None"

text \<open>
  Collaborators for the examples: a model that cannot be reached, a model that answers with a
  fixed JSON value, task functions that raise, task functions that answer, and extractors that
  fail.
\<close>

definition llm_down :: classifier_env where
  "llm_down =
     \<lparr>llm_json = (\<lambda>p. Inl (PyException ''LLMClientError'' ''LLM_API_KEY is not set'')),
      float_of_int = (\<lambda>n. Inr (Finite (of_int n))),
      float_of_str = (\<lambda>s. Inl (PyException ''ValueError'' ''could not convert string to float''))\<rparr>"

definition llm_answers :: "pyval \<Rightarrow> classifier_env" where
  "llm_answers v =
     \<lparr>llm_json = (\<lambda>p. Inr v),
      float_of_int = (\<lambda>n. Inr (Finite (of_int n))),
      float_of_str = (\<lambda>s. Inl (PyException ''ValueError'' ''could not convert string to float''))\<rparr>"

definition resolved_answer :: "string \<Rightarrow> pyval" where
  "resolved_answer i =
     PDict [(''intent'', PStr i),
            (''confidence'', PInt 1),
            (''needs_clarification'', PBool False),
            (''clarification_question'', PNone),
            (''reasoning'', PStr ''explicit instruction'')]"

text \<open>An answer of the model whose confidence is the JSON constant \<^verbatim>\<open>NaN\<close>, which \<^verbatim>\<open>json.loads\<close> reads.\<close>

definition nan_answer :: "string \<Rightarrow> pyval" where
  "nan_answer i =
     PDict [(''intent'', PStr i),
            (''confidence'', PFloat NaN),
            (''needs_clarification'', PBool False),
            (''clarification_question'', PNone),
            (''reasoning'', PStr ''explicit instruction'')]"

definition tasks_raise :: task_env where
  "tasks_raise =
     \<lparr>summarize_text = (\<lambda>c. Inl (PyException ''RuntimeError'' ''backend crashed'')),
      analyze_sentiment = (\<lambda>c. Inl (PyException ''RuntimeError'' ''backend crashed'')),
      explain_code = (\<lambda>c. Inl (PyException ''RuntimeError'' ''backend crashed'')),
      answer_question = (\<lambda>q c. Inl (PyException ''RuntimeError'' ''backend crashed''))\<rparr>"

definition tasks_answer :: task_env where
  "tasks_answer =
     \<lparr>summarize_text = (\<lambda>c. Inr (PDict [(''one_line'', PStr c), (''success'', PBool True)])),
      analyze_sentiment = (\<lambda>c. Inr (PDict [(''label'', PStr ''POSITIVE''), (''success'', PBool True)])),
      explain_code = (\<lambda>c. Inr (PDict [(''explanation'', PStr c), (''success'', PBool True)])),
      answer_question = (\<lambda>q c. Inr (PDict [(''answer'', PStr c), (''success'', PBool True)]))\<rparr>"

definition extractors_fail :: extractor_env where
  "extractors_fail =
     (let failed = \<lparr>ext_success = False, ext_text = [], ext_info = (\<lambda>k. PInt 0),
                     ext_error = Some ''unavailable''\<rparr>
      in \<lparr>extract_from_image = (\<lambda>b. failed),
          extract_from_pdf = (\<lambda>b. failed),
          extract_from_audio = (\<lambda>b n. failed),
          extract_youtube_transcript = (\<lambda>u. failed)\<rparr>)"

definition example_env :: "classifier_env \<Rightarrow> app_env" where
  "example_env c = \<lparr>classifier = c, tasks = tasks_answer, extractors = extractors_fail\<rparr>"

definition empty_state :: app_state where
  "empty_state = \<lparr>conversation_contexts = Map.empty, calls = []\<rparr>"

text \<open>The state after a first submit of \<^verbatim>\<open>I love this product!\<close> under the session id \<^verbatim>\<open>s1\<close>, while the model cannot be reached.\<close>

definition submitted_state :: app_state where
  "submitted_state =
     \<lparr>conversation_contexts =
        [''s1'' \<mapsto> \<lparr>extracted_content = ''I love this product!'',
                       extraction_metadata = [(''type'', PStr ''text'')]\<rparr>],
      calls = [ClassifyCall ''I love this product!'' (Some ''I love this product!'')]\<rparr>"

text \<open>The state after a second submit, of \<^verbatim>\<open>def hello(): pass\<close>, under the same session id.\<close>

definition resubmitted_state :: app_state where
  "resubmitted_state =
     \<lparr>conversation_contexts =
        [''s1'' \<mapsto> \<lparr>extracted_content = ''def hello(): pass'',
                       extraction_metadata = [(''type'', PStr ''text'')]\<rparr>],
      calls = [ClassifyCall ''I love this product!'' (Some ''I love this product!''),
               ClassifyCall ''def hello(): pass'' (Some ''def hello(): pass'')]\<rparr>"

section \<open>The classifier is total and fails to the fallback\<close>

text \<open>
  Claim C1. \<^verbatim>\<open>classify\<close> returns a classification, with its six fields, for every input:
  an exception of its body gives the fallback. A result with \<open>success = False\<close> has the intent \<^verbatim>\<open>unknown\<close>,
  confidence 0.0, \<open>needs_clarification = True\<close> and the canned question, which is not
  \<^verbatim>\<open>None\<close>.
\<close>

theorem classify_total_with_fallback:
  "(\<forall>e. classify_try env t q = Inl e \<longrightarrow> classify env t q = get_fallback_intent) \<and>
   (\<not> success (classify env t q) \<longrightarrow>
      intent (classify env t q) = PStr ''unknown'' \<and>
      confidence (classify env t q) = Finite 0 \<and>
      needs_clarification (classify env t q) \<and>
      clarification_question (classify env t q) = clarification_question get_fallback_intent \<and>
      clarification_question (classify env t q) \<noteq> PNone)"
proof (cases "classify_try env t q")
  case (Inl e)
  then have "classify env t q = get_fallback_intent" by (simp add: classify_def)
  then show ?thesis by (simp add: get_fallback_intent_def)
next
  case (Inr r)
  then have "success r"
    by (auto simp: classify_try_def ebind_def split: sum.splits)
  with Inr show ?thesis by (simp add: classify_def)
qed

theorem classify_total_with_fallback_witness:
  "classify_try llm_down ''I love this product!'' None =
     Inl (PyException ''LLMClientError'' ''LLM_API_KEY is not set'') \<and>
   \<not> success (classify llm_down ''I love this product!'' None) \<and>
   intent (classify llm_down ''I love this product!'' None) = PStr ''unknown'' \<and>
   confidence (classify llm_down ''I love this product!'' None) = Finite 0 \<and>
   needs_clarification (classify llm_down ''I love this product!'' None) \<and>
   clarification_question (classify llm_down ''I love this product!'' None) \<noteq> PNone"
proof -
  have a: "classify_try llm_down ''I love this product!'' None =
      Inl (PyException ''LLMClientError'' ''LLM_API_KEY is not set'')"
    by (simp add: classify_try_def llm_down_def ebind_def)
  then have b: "\<not> success (classify llm_down ''I love this product!'' None)"
    by (simp add: classify_def get_fallback_intent_def)
  from classify_total_with_fallback [of llm_down "''I love this product!''" None] b
  have "intent (classify llm_down ''I love this product!'' None) = PStr ''unknown'' \<and>
      confidence (classify llm_down ''I love this product!'' None) = Finite 0 \<and>
      needs_clarification (classify llm_down ''I love this product!'' None) \<and>
      clarification_question (classify llm_down ''I love this product!'' None) \<noteq> PNone"
    by blast
  with a b show ?thesis by blast
qed

section \<open>What the router writes into a result\<close>

lemma map_of_update_other: "k \<noteq> k' \<Longrightarrow> map_of (AList.update k v al) k' = map_of al k'"
  by (simp add: update_conv')

lemma map_of_update_same: "map_of (AList.update k v al) k = Some v"
  by (simp add: update_conv')

lemma handler_result_type:
  "handle_text_extraction env c q = Inr r \<Longrightarrow> map_of r ''result_type'' = Some (PStr ''text_extraction'')"
  "handle_youtube env c q = Inr r \<Longrightarrow> map_of r ''result_type'' = Some (PStr ''youtube_transcript'')"
  "handle_summarization env c q = Inr r \<Longrightarrow> map_of r ''result_type'' = Some (PStr ''summarization'')"
  "handle_sentiment env c q = Inr r \<Longrightarrow> map_of r ''result_type'' = Some (PStr ''sentiment_analysis'')"
  "handle_code env c q = Inr r \<Longrightarrow> map_of r ''result_type'' = Some (PStr ''code_explanation'')"
  "handle_qa env c q = Inr r \<Longrightarrow> map_of r ''result_type'' = Some (PStr ''qa'')"
  "handle_unknown env c q = Inr r \<Longrightarrow> map_of r ''result_type'' = Some (PStr ''unknown'')"
  by (auto simp: handle_text_extraction_def handle_youtube_def handle_summarization_def
      handle_sentiment_def handle_code_def handle_qa_def handle_unknown_def ebind_def
      split: sum.splits)

lemma task_map_get_result_type:
  assumes "task_map_get (PStr i) env c q = Inr r"
  shows "map_of r ''result_type'' = Some (PStr (if i \<in> set (map fst task_map) then i else ''unknown''))"
proof (cases "map_of task_map i")
  case None
  then have "i \<notin> set (map fst task_map)" by (simp add: map_of_eq_None_iff)
  moreover from None assms have "handle_unknown env c q = Inr r" by simp
  ultimately show ?thesis by (simp add: handler_result_type)
next
  case (Some h)
  then have mem: "i \<in> set (map fst task_map)" by (metis map_of_eq_None_iff option.distinct(1) set_map)
  from Some assms have run: "h env c q = Inr r" by simp
  from Some have "(i, h) \<in> set task_map" by (rule map_of_SomeD)
  then have "map_of r ''result_type'' = Some (PStr i)"
    using run by (auto simp: task_map_def handler_result_type)
  with mem show ?thesis by simp
qed

text \<open>
  Claim C4, as amended. For every intent string \<^verbatim>\<open>execute\<close> returns a dict whose
  \<^verbatim>\<open>task_type\<close> is the requested intent. The \<^verbatim>\<open>result_type\<close> names the handler that
  ran: when the handler returns, it is the intent if the intent is a key of the routing table and
  \<^verbatim>\<open>unknown\<close> for every other intent.
\<close>

theorem execute_task_type:
  "\<exists>d. execute env (PStr i) content q = Inr d \<and>
       map_of d ''task_type'' = Some (PStr i) \<and>
       (\<forall>r. task_map_get (PStr i) env content q = Inr r \<longrightarrow>
            map_of d ''result_type'' =
              Some (PStr (if i \<in> set (map fst task_map) then i else ''unknown'')))"
proof (cases "task_map_get (PStr i) env content q")
  case (Inl e)
  then show ?thesis by (simp add: execute_def)
next
  case (Inr r)
  then show ?thesis
    by (simp add: execute_def map_of_update_same map_of_update_other task_map_get_result_type)
qed

theorem execute_task_type_witness:
  "task_map_get (PStr ''translate'') tasks_answer ''Bonjour tout le monde'' None =
     handle_unknown tasks_answer ''Bonjour tout le monde'' None \<and>
   result_field (execute tasks_answer (PStr ''translate'') ''Bonjour tout le monde'' None) ''task_type'' =
     Some (PStr ''translate'') \<and>
   result_field (execute tasks_answer (PStr ''translate'') ''Bonjour tout le monde'' None) ''result_type'' =
     Some (PStr ''unknown'')"
proof -
  have h: "task_map_get (PStr ''translate'') tasks_answer ''Bonjour tout le monde'' None =
     handle_unknown tasks_answer ''Bonjour tout le monde'' None"
    by (simp add: task_map_def)
  have notin: "''translate'' \<notin> set (map fst task_map)" by (simp add: task_map_def)
  from execute_task_type [of tasks_answer "''translate''" "''Bonjour tout le monde''" None]
  obtain d where d: "execute tasks_answer (PStr ''translate'') ''Bonjour tout le monde'' None = Inr d"
    "map_of d ''task_type'' = Some (PStr ''translate'')"
    "\<forall>r. task_map_get (PStr ''translate'') tasks_answer ''Bonjour tout le monde'' None = Inr r \<longrightarrow>
            map_of d ''result_type'' =
              Some (PStr (if ''translate'' \<in> set (map fst task_map) then ''translate'' else ''unknown''))"
    by blast
  from d(3) h notin have "map_of d ''result_type'' = Some (PStr ''unknown'')"
    by (simp add: handle_unknown_def)
  with d(1,2) h show ?thesis by simp
qed

text \<open>
  Claim C4 as stated fails: the intent \<^verbatim>\<open>translate\<close> is not in the routing table, and the
  result's \<^verbatim>\<open>result_type\<close> is \<^verbatim>\<open>unknown\<close>, not the requested intent.
\<close>

theorem execute_result_type_counterexample:
  "result_field (execute tasks_answer (PStr ''translate'') ''Bonjour tout le monde'' None) ''result_type''
     = Some (PStr ''unknown'') \<and>
   result_field (execute tasks_answer (PStr ''translate'') ''Bonjour tout le monde'' None) ''result_type''
     \<noteq> Some (PStr ''translate'')"
  by (simp add: execute_def task_map_def handle_unknown_def preview_def)

text \<open>
  Claim C5. For every intent string \<^verbatim>\<open>execute\<close> returns a dict, and when the selected handler
  raises, the dict has the requested intent as \<^verbatim>\<open>task_type\<close>, \<open>success = False\<close>, the
  exception's text as \<^verbatim>\<open>error\<close> and the failure message.
\<close>

theorem execute_contains_handler_exception:
  "(\<exists>d. execute env (PStr i) content q = Inr d) \<and>
   (\<forall>e. task_map_get (PStr i) env content q = Inl e \<longrightarrow>
        execute env (PStr i) content q =
          Inr [(''task_type'', PStr i),
               (''success'', PBool False),
               (''error'', PStr (exc_str e)),
               (''message'', PFmt ''Failed to execute {} task'' [PStr i])])"
  by (cases "task_map_get (PStr i) env content q") (simp_all add: execute_def)

theorem execute_contains_handler_exception_witness:
  "task_map_get (PStr ''summarization'') tasks_raise ''Some long report'' None =
     Inl (PyException ''RuntimeError'' ''backend crashed'') \<and>
   execute tasks_raise (PStr ''summarization'') ''Some long report'' None =
     Inr [(''task_type'', PStr ''summarization''),
          (''success'', PBool False),
          (''error'', PStr ''backend crashed''),
          (''message'', PFmt ''Failed to execute {} task'' [PStr ''summarization''])]"
proof -
  have h: "task_map_get (PStr ''summarization'') tasks_raise ''Some long report'' None =
     Inl (PyException ''RuntimeError'' ''backend crashed'')"
    by (simp add: task_map_def handle_summarization_def tasks_raise_def ebind_def)
  from execute_contains_handler_exception [of tasks_raise "''summarization''" "''Some long report''" None] h
  show ?thesis by simp
qed

section \<open>The clarification protocol\<close>

text \<open>
  Claim C6. A clarify request whose session id has no stored context raises the
  \<^verbatim>\<open>HTTPException\<close> 400 that tells the caller to resubmit; it returns no response of its
  own, and the state, with its record of calls, is unchanged: no classification and no dispatch ran.
\<close>

theorem clarify_unknown_session:
  "conversation_contexts st session_id = None \<Longrightarrow>
   clarify_intent env st clarification session_id =
     (Inl (HTTPException 400 ''Session expired or invalid. Please resubmit your input.''), st)"
  by (simp add: clarify_intent_def)

theorem clarify_unknown_session_witness:
  "conversation_contexts empty_state ''never-issued'' = None \<and>
   clarify_intent (example_env llm_down) empty_state ''summarize it'' ''never-issued'' =
     (Inl (HTTPException 400 ''Session expired or invalid. Please resubmit your input.''), empty_state)"
proof -
  have h: "conversation_contexts empty_state ''never-issued'' = None"
    by (simp add: empty_state_def)
  from h clarify_unknown_session [OF h, of "example_env llm_down" "''summarize it''"]
  show ?thesis by simp
qed

subsection \<open>The two endpoints, branch by branch\<close>

lemma strip_short: "content = [] \<Longrightarrow> length (strip content) < 5"
  by (simp add: strip_def)

lemma extract_content_raises:
  "extract_content ex t f logs = (Inl e, logs') \<Longrightarrow> \<exists>detail. e = HTTPException 400 detail"
  by (auto simp: extract_content_def Let_def split: option.splits if_splits)

lemma extract_content_logs_safe:
  "extract_content ex t f logs = (r, logs') \<Longrightarrow> list_all json_safe logs \<Longrightarrow> list_all json_safe logs'"
  by (auto simp: extract_content_def Let_def error_or_unknown_def split: option.splits if_splits)

lemma respond_cases:
  "json_safe (PDict content) \<Longrightarrow> respond content logs = JSONResponse content 200"
  "\<not> json_safe (PDict content) \<Longrightarrow>
     respond content logs =
       server_error (PyException ''ValueError'' ''Out of range float values are not JSON compliant'') logs"
  by (simp_all add: respond_def json_response_def)

lemma respond_status:
  assumes "respond content logs = JSONResponse d c"
      and "map_of d ''status'' \<noteq> Some (PStr ''error'')"
  shows "d = content \<and> c = 200 \<and> json_safe (PDict content)"
  using assms by (cases "json_safe (PDict content)") (auto simp: respond_cases server_error_def)

lemma respond_status_field:
  "respond content logs = JSONResponse d c \<Longrightarrow>
   map_of d ''status'' = map_of content ''status'' \<or> map_of d ''status'' = Some (PStr ''error'')"
  by (cases "json_safe (PDict content)") (auto simp: respond_cases server_error_def)

lemma process_input_needs_clarification:
  assumes "process_input env st t f sid = (Inr (JSONResponse d c), st1)"
      and "map_of d ''status'' = Some (PStr ''needs_clarification'')"
  shows "\<exists>content metadata logs.
           extract_content (extractors env) t f [PStr ''Processing your request...''] =
             (Inr (content, metadata), logs) \<and>
           \<not> length (strip content) < 5 \<and>
           needs_clarification (classify (classifier env) content t) \<and>
           st1 = st\<lparr>calls := calls st @ [ClassifyCall content t],
                    conversation_contexts := (conversation_contexts st)
                      (sid \<mapsto> \<lparr>extracted_content = content, extraction_metadata = metadata\<rparr>)\<rparr> \<and>
           map fst d = [''status'', ''extracted_content'', ''extraction_metadata'', ''question'',
                        ''reasoning'', ''logs'', ''session_id''] \<and>
           map_of d ''extracted_content'' = Some (PStr (preview 500 content)) \<and>
           map_of d ''extraction_metadata'' = Some (PDict metadata) \<and>
           map_of d ''session_id'' = Some (PStr sid) \<and>
           json_safe (PDict metadata) \<and> c = 200"
proof -
  from assms(2) have ne: "map_of d ''status'' \<noteq> Some (PStr ''error'')" by simp
  obtain r logs where ex: "extract_content (extractors env) t f [PStr ''Processing your request...''] = (r, logs)"
    by (cases "extract_content (extractors env) t f [PStr ''Processing your request...'']")
  show ?thesis
  proof (cases r)
    case (Inl e)
    with ex assms(1) show ?thesis by (simp add: process_input_def)
  next
    case (Inr cm)
    obtain content metadata where cm: "cm = (content, metadata)" by (cases cm)
    let ?ir = "classify (classifier env) content t"
    show ?thesis
    proof (cases "content = [] \<or> length (strip content) < 5")
      case True
      with ex Inr cm assms(1) have
        "respond [(''status'', PStr ''error''),
                  (''message'', PStr ''Could not extract meaningful content from input''),
                  (''logs'', PList (logs @ [PStr ''Warning: Very little content extracted'']))]
           (logs @ [PStr ''Warning: Very little content extracted'']) = JSONResponse d c"
        by (simp add: process_input_def Let_def)
      from respond_status [OF this ne] assms(2) show ?thesis by auto
    next
      case False
      note long = this
      show ?thesis
      proof (cases "needs_clarification ?ir")
        case True
        let ?logs3 = "logs @ [PStr ''Analyzing your intent...''] @
                   [if \<not> success ?ir
                    then PStr ''Intent classification failed, requesting clarification''
                    else PFmt ''Intent identified: {} (confidence: {:.2f})''
                           [intent ?ir, PFloat (confidence ?ir)]] @ [PStr ''Clarification needed from user'']"
        let ?p = "[(''status'', PStr ''needs_clarification''),
                   (''extracted_content'', PStr (preview 500 content)),
                   (''extraction_metadata'', PDict metadata),
                   (''question'', clarification_question ?ir),
                   (''reasoning'', reasoning ?ir),
                   (''logs'', PList ?logs3),
                   (''session_id'', PStr sid)]"
        from ex Inr cm long True assms(1) have
          r: "respond ?p ?logs3 = JSONResponse d c"
          and s: "st1 = st\<lparr>calls := calls st @ [ClassifyCall content t],
                    conversation_contexts := (conversation_contexts st)
                      (sid \<mapsto> \<lparr>extracted_content = content, extraction_metadata = metadata\<rparr>)\<rparr>"
          by (simp_all add: process_input_def Let_def)
        from respond_status [OF r ne] have d: "d = ?p" "c = 200" "json_safe (PDict ?p)" by simp_all
        from d(3) have "json_safe (PDict metadata)" by simp
        with ex Inr cm long True s d(1,2) show ?thesis by simp
      next
        case False
        show ?thesis
        proof (cases "execute (tasks env) (intent ?ir) content t")
          case (Inl e)
          with ex \<open>r = Inr cm\<close> cm long False assms show ?thesis
            by (auto simp: process_input_def Let_def server_error_def)
        next
          case (Inr final)
          with ex \<open>r = Inr cm\<close> cm long False assms show ?thesis
            by (auto simp: process_input_def Let_def dest!: respond_status_field)
        qed
      qed
    qed
  qed
qed

lemma clarify_still_unclear:
  assumes "conversation_contexts st sid = Some ctx"
      and "needs_clarification (classify (classifier env) (extracted_content ctx) (Some clar))"
  shows "clarify_intent env st clar sid =
           (Inr (respond
                   [(''status'', PStr ''needs_clarification''),
                    (''question'',
                       clarification_question (classify (classifier env) (extracted_content ctx) (Some clar))),
                    (''logs'', PList [PStr ''Processing your clarification...'',
                                      PStr ''Re-analyzing intent with your clarification...'',
                                      PStr ''Still need more clarification''])]
                   [PStr ''Processing your clarification...'',
                    PStr ''Re-analyzing intent with your clarification...'',
                    PStr ''Still need more clarification'']),
            st\<lparr>calls := calls st @ [ClassifyCall (extracted_content ctx) (Some clar)]\<rparr>)"
  using assms by (simp add: clarify_intent_def Let_def)

lemma execute_str_returns: "\<exists>d. execute env (PStr i) content q = Inr d"
  by (cases "task_map_get (PStr i) env content q") (simp_all add: execute_def)

lemma clarify_resolved_state:
  assumes "conversation_contexts st sid = Some ctx"
      and "\<not> needs_clarification (classify (classifier env) (extracted_content ctx) (Some clar))"
      and "execute (tasks env) (intent (classify (classifier env) (extracted_content ctx) (Some clar)))
             (extracted_content ctx) (Some clar) = Inr final"
  shows "snd (clarify_intent env st clar sid) =
            st\<lparr>calls := calls st @
                  [ClassifyCall (extracted_content ctx) (Some clar),
                   ExecuteCall (intent (classify (classifier env) (extracted_content ctx) (Some clar)))
                     (extracted_content ctx) (Some clar)],
                conversation_contexts := (conversation_contexts st)(sid := None)\<rparr>"
  using assms by (simp add: clarify_intent_def Let_def)

lemma clarify_resolved:
  assumes "conversation_contexts st sid = Some ctx"
      and "\<not> needs_clarification (classify (classifier env) (extracted_content ctx) (Some clar))"
      and "execute (tasks env) (intent (classify (classifier env) (extracted_content ctx) (Some clar)))
             (extracted_content ctx) (Some clar) = Inr final"
      and "json_safe (intent (classify (classifier env) (extracted_content ctx) (Some clar)))"
      and "json_safe (PFloat (confidence (classify (classifier env) (extracted_content ctx) (Some clar))))"
      and "json_safe (PDict final)"
      and "json_safe (PDict (extraction_metadata ctx))"
  shows "\<exists>d. fst (clarify_intent env st clar sid) = Inr (JSONResponse d 200) \<and>
           map fst d = [''status'', ''extracted_content'', ''extraction_metadata'', ''intent'',
                        ''result'', ''logs''] \<and>
           map_of d ''status'' = Some (PStr ''success'') \<and>
           map_of d ''extracted_content'' = Some (PStr (preview 1000 (extracted_content ctx))) \<and>
           map_of d ''extraction_metadata'' = Some (PDict (extraction_metadata ctx)) \<and>
           map_of d ''result'' = Some (PDict final)"
  using assms by (simp add: clarify_intent_def Let_def respond_cases)

lemma clarify_dispatch_error:
  assumes "conversation_contexts st sid = Some ctx"
      and "\<not> needs_clarification (classify (classifier env) (extracted_content ctx) (Some clar))"
      and "execute (tasks env) (intent (classify (classifier env) (extracted_content ctx) (Some clar)))
             (extracted_content ctx) (Some clar) = Inl e"
  shows "\<exists>d. clarify_intent env st clar sid =
           (Inr (JSONResponse d 500),
            st\<lparr>calls := calls st @
                  [ClassifyCall (extracted_content ctx) (Some clar),
                   ExecuteCall (intent (classify (classifier env) (extracted_content ctx) (Some clar)))
                     (extracted_content ctx) (Some clar)]\<rparr>) \<and>
           map fst d = [''status'', ''message'', ''logs''] \<and>
           map_of d ''status'' = Some (PStr ''error'')"
  using assms by (simp add: clarify_intent_def Let_def server_error_def)

subsection \<open>Example runs\<close>

lemma not_youtube_example: "\<not> is_youtube_url ''I love this product!''"
  by code_simp

lemma extract_example:
  "extract_content extractors_fail (Some ''I love this product!'') None [PStr ''Processing your request...'']
     = (Inr (''I love this product!'', [(''type'', PStr ''text'')]),
        [PStr ''Processing your request...'', PStr ''Processing text input...''])"
  by (simp add: extract_content_def not_youtube_example)

lemma strip_example: "strip ''I love this product!'' = ''I love this product!''"
  by code_simp

lemma classify_down: "classify llm_down c q = get_fallback_intent"
  by (simp add: classify_def classify_try_def llm_down_def ebind_def)

lemma submit_example:
  "process_input (example_env llm_down) empty_state (Some ''I love this product!'') None ''s1'' =
     (Inr (JSONResponse
        [(''status'', PStr ''needs_clarification''),
         (''extracted_content'', PStr ''I love this product!''),
         (''extraction_metadata'', PDict [(''type'', PStr ''text'')]),
         (''question'', clarification_question get_fallback_intent),
         (''reasoning'', reasoning get_fallback_intent),
         (''logs'', PList [PStr ''Processing your request...'', PStr ''Processing text input...'',
            PStr ''Analyzing your intent...'',
            PStr ''Intent classification failed, requesting clarification'',
            PStr ''Clarification needed from user'']),
         (''session_id'', PStr ''s1'')] 200), submitted_state)"
  by (simp add: process_input_def example_env_def extract_example strip_example classify_down
      get_fallback_intent_def preview_def empty_state_def submitted_state_def respond_cases)

lemma classify_resolved:
  "classify (llm_answers (resolved_answer i)) c q =
     \<lparr>intent = PStr i, confidence = Finite 1, needs_clarification = False,
      clarification_question = PNone, reasoning = PStr ''explicit instruction'', success = True\<rparr>"
  by (simp add: classify_def classify_try_def llm_answers_def resolved_answer_def ebind_def dict_get_def)

lemma classify_nan:
  "classify (llm_answers (nan_answer i)) c q =
     \<lparr>intent = PStr i, confidence = NaN, needs_clarification = False,
      clarification_question = PNone, reasoning = PStr ''explicit instruction'', success = True\<rparr>"
  by (simp add: classify_def classify_try_def llm_answers_def nan_answer_def ebind_def dict_get_def)

lemma submitted_lookup:
  "conversation_contexts submitted_state ''s1'' =
     Some \<lparr>extracted_content = ''I love this product!'', extraction_metadata = [(''type'', PStr ''text'')]\<rparr>"
  by (simp add: submitted_state_def)

lemma hello_facts:
  "\<not> is_youtube_url ''hello''" "length (strip ''hello'') = 5"
  "\<not> is_youtube_url '' hi  ''" "length (strip '' hi  '') = 2"
  by code_simp+

lemma tasks_answer_safe:
  "execute tasks_answer (PStr i) content q = Inr final \<Longrightarrow> json_safe (PDict final)"
  by (auto simp: execute_def task_map_def handle_text_extraction_def handle_youtube_def
      handle_summarization_def handle_sentiment_def handle_code_def handle_qa_def handle_unknown_def
      tasks_answer_def ebind_def dict_get_def split: if_splits option.splits)

subsection \<open>Round trip\<close>

text \<open>
  Claim C2, as amended. When a submit request ends in \<^verbatim>\<open>needs_clarification\<close>, a context is
  stored under its session id with the extraction metadata the response carries. A clarify request
  with that session id for which the classifier resolves to an intent string, with
  \<open>needs_clarification = False\<close>, returns a \<^verbatim>\<open>success\<close> response whose
  \<^verbatim>\<open>extraction_metadata\<close> is the value of the first response, provided the confidence is a
  finite number and the task result holds no NaN and no infinite float, so that the response can
  be serialised.
\<close>

theorem clarification_round_trip:
  assumes "process_input env1 st t f sid = (Inr (JSONResponse d1 c1), st1)"
      and "map_of d1 ''status'' = Some (PStr ''needs_clarification'')"
  shows "\<exists>ctx. conversation_contexts st1 sid = Some ctx \<and>
           map_of d1 ''extraction_metadata'' = Some (PDict (extraction_metadata ctx)) \<and>
           (\<forall>env2 clar i.
              \<not> needs_clarification (classify (classifier env2) (extracted_content ctx) (Some clar)) \<and>
              intent (classify (classifier env2) (extracted_content ctx) (Some clar)) = PStr i \<and>
              json_safe (PFloat (confidence (classify (classifier env2) (extracted_content ctx) (Some clar)))) \<and>
              (\<forall>final. execute (tasks env2) (PStr i) (extracted_content ctx) (Some clar) = Inr final \<longrightarrow>
                       json_safe (PDict final)) \<longrightarrow>
              (\<exists>d2. fst (clarify_intent env2 st1 clar sid) = Inr (JSONResponse d2 200) \<and>
                    map_of d2 ''status'' = Some (PStr ''success'') \<and>
                    map_of d2 ''extraction_metadata'' = map_of d1 ''extraction_metadata''))"
proof -
  from process_input_needs_clarification [OF assms]
  obtain content metadata where
    st1: "st1 = st\<lparr>calls := calls st @ [ClassifyCall content t],
                    conversation_contexts := (conversation_contexts st)
                      (sid \<mapsto> \<lparr>extracted_content = content, extraction_metadata = metadata\<rparr>)\<rparr>"
    and md: "map_of d1 ''extraction_metadata'' = Some (PDict metadata)"
    and safe: "json_safe (PDict metadata)"
    by blast
  let ?ctx = "\<lparr>extracted_content = content, extraction_metadata = metadata\<rparr>"
  have stored: "conversation_contexts st1 sid = Some ?ctx" by (simp add: st1)
  have "\<exists>d2. fst (clarify_intent env2 st1 clar sid) = Inr (JSONResponse d2 200) \<and>
             map_of d2 ''status'' = Some (PStr ''success'') \<and>
             map_of d2 ''extraction_metadata'' = map_of d1 ''extraction_metadata''"
    if res: "\<not> needs_clarification (classify (classifier env2) (extracted_content ?ctx) (Some clar))"
      and str: "intent (classify (classifier env2) (extracted_content ?ctx) (Some clar)) = PStr i"
      and conf: "json_safe (PFloat (confidence (classify (classifier env2) (extracted_content ?ctx) (Some clar))))"
      and fin: "\<forall>final. execute (tasks env2) (PStr i) (extracted_content ?ctx) (Some clar) = Inr final \<longrightarrow>
                       json_safe (PDict final)"
    for env2 clar i
  proof -
    from execute_str_returns [of "tasks env2" i "extracted_content ?ctx" "Some clar"]
    obtain final where f0: "execute (tasks env2) (PStr i) (extracted_content ?ctx) (Some clar) = Inr final"
      by auto
    with fin have fs: "json_safe (PDict final)" by blast
    from f0 str have f1:
      "execute (tasks env2) (intent (classify (classifier env2) (extracted_content ?ctx) (Some clar)))
         (extracted_content ?ctx) (Some clar) = Inr final"
      by simp
    have "json_safe (PStr i)" by simp
    with str have isafe: "json_safe (intent (classify (classifier env2) (extracted_content ?ctx) (Some clar)))"
      by metis
    have ms: "json_safe (PDict (extraction_metadata ?ctx))" using safe by simp
    from clarify_resolved [OF stored res f1 isafe conf fs ms] md show ?thesis by auto
  qed
  with stored md show ?thesis by (intro exI [of _ ?ctx]) auto
qed

theorem clarification_round_trip_witness:
  "fst (process_input (example_env llm_down) empty_state (Some ''I love this product!'') None ''s1'') =
     Inr (JSONResponse
        [(''status'', PStr ''needs_clarification''),
         (''extracted_content'', PStr ''I love this product!''),
         (''extraction_metadata'', PDict [(''type'', PStr ''text'')]),
         (''question'', clarification_question get_fallback_intent),
         (''reasoning'', reasoning get_fallback_intent),
         (''logs'', PList [PStr ''Processing your request...'', PStr ''Processing text input...'',
            PStr ''Analyzing your intent...'',
            PStr ''Intent classification failed, requesting clarification'',
            PStr ''Clarification needed from user'']),
         (''session_id'', PStr ''s1'')] 200) \<and>
   response_field
     (fst (clarify_intent (example_env (llm_answers (resolved_answer ''sentiment_analysis'')))
        submitted_state ''what is the sentiment?'' ''s1'')) ''status'' = Some (PStr ''success'') \<and>
   response_field
     (fst (clarify_intent (example_env (llm_answers (resolved_answer ''sentiment_analysis'')))
        submitted_state ''what is the sentiment?'' ''s1'')) ''extraction_metadata'' =
     Some (PDict [(''type'', PStr ''text'')])"
proof -
  let ?env2 = "example_env (llm_answers (resolved_answer ''sentiment_analysis''))"
  let ?d1 = "[(''status'', PStr ''needs_clarification''),
         (''extracted_content'', PStr ''I love this product!''),
         (''extraction_metadata'', PDict [(''type'', PStr ''text'')]),
         (''question'', clarification_question get_fallback_intent),
         (''reasoning'', reasoning get_fallback_intent),
         (''logs'', PList [PStr ''Processing your request...'', PStr ''Processing text input...'',
            PStr ''Analyzing your intent...'',
            PStr ''Intent classification failed, requesting clarification'',
            PStr ''Clarification needed from user'']),
         (''session_id'', PStr ''s1'')]"
  have st: "map_of ?d1 ''status'' = Some (PStr ''needs_clarification'')" by simp
  from clarification_round_trip [OF submit_example st]
  obtain ctx where ctx: "conversation_contexts submitted_state ''s1'' = Some ctx"
    and rt: "\<forall>env2 clar i.
              \<not> needs_clarification (classify (classifier env2) (extracted_content ctx) (Some clar)) \<and>
              intent (classify (classifier env2) (extracted_content ctx) (Some clar)) = PStr i \<and>
              json_safe (PFloat (confidence (classify (classifier env2) (extracted_content ctx) (Some clar)))) \<and>
              (\<forall>final. execute (tasks env2) (PStr i) (extracted_content ctx) (Some clar) = Inr final \<longrightarrow>
                       json_safe (PDict final)) \<longrightarrow>
              (\<exists>d2. fst (clarify_intent env2 submitted_state clar ''s1'') = Inr (JSONResponse d2 200) \<and>
                    map_of d2 ''status'' = Some (PStr ''success'') \<and>
                    map_of d2 ''extraction_metadata'' = map_of ?d1 ''extraction_metadata'')"
    by blast
  have "\<not> needs_clarification (classify (classifier ?env2) (extracted_content ctx) (Some ''what is the sentiment?'')) \<and>
        intent (classify (classifier ?env2) (extracted_content ctx) (Some ''what is the sentiment?'')) = PStr ''sentiment_analysis'' \<and>
        json_safe (PFloat (confidence (classify (classifier ?env2) (extracted_content ctx) (Some ''what is the sentiment?'')))) \<and>
        (\<forall>final. execute (tasks ?env2) (PStr ''sentiment_analysis'') (extracted_content ctx)
                    (Some ''what is the sentiment?'') = Inr final \<longrightarrow> json_safe (PDict final))"
    using tasks_answer_safe by (simp add: example_env_def classify_resolved)
  with rt obtain d2 where
    "fst (clarify_intent ?env2 submitted_state ''what is the sentiment?'' ''s1'') = Inr (JSONResponse d2 200)"
    "map_of d2 ''status'' = Some (PStr ''success'')"
    "map_of d2 ''extraction_metadata'' = map_of ?d1 ''extraction_metadata''"
    by blast
  then show ?thesis using submit_example by (simp add: response_field_def)
qed

text \<open>
  Claim C2 as stated fails: after the same first step, a classifier that resolves to the intent
  \<^verbatim>\<open>text_extraction\<close> with the confidence \<^verbatim>\<open>NaN\<close> makes the clarify request answer with
  the \<^verbatim>\<open>error\<close> response, which has no \<^verbatim>\<open>extraction_metadata\<close>.
\<close>

theorem nan_confidence_round_trip_counterexample:
  "process_input (example_env llm_down) empty_state (Some ''I love this product!'') None ''s1'' =
     (Inr (JSONResponse
        [(''status'', PStr ''needs_clarification''),
         (''extracted_content'', PStr ''I love this product!''),
         (''extraction_metadata'', PDict [(''type'', PStr ''text'')]),
         (''question'', clarification_question get_fallback_intent),
         (''reasoning'', reasoning get_fallback_intent),
         (''logs'', PList [PStr ''Processing your request...'', PStr ''Processing text input...'',
            PStr ''Analyzing your intent...'',
            PStr ''Intent classification failed, requesting clarification'',
            PStr ''Clarification needed from user'']),
         (''session_id'', PStr ''s1'')] 200), submitted_state) \<and>
   \<not> needs_clarification
       (classify (llm_answers (nan_answer ''text_extraction'')) ''I love this product!''
          (Some ''show me the text'')) \<and>
   intent (classify (llm_answers (nan_answer ''text_extraction'')) ''I love this product!''
          (Some ''show me the text'')) = PStr ''text_extraction'' \<and>
   response_field
     (fst (clarify_intent (example_env (llm_answers (nan_answer ''text_extraction''))) submitted_state
        ''show me the text'' ''s1'')) ''status'' = Some (PStr ''error'') \<and>
   response_field
     (fst (clarify_intent (example_env (llm_answers (nan_answer ''text_extraction''))) submitted_state
        ''show me the text'' ''s1'')) ''extraction_metadata'' = None"
proof -
  have "\<not> needs_clarification
       (classify (llm_answers (nan_answer ''text_extraction'')) ''I love this product!''
          (Some ''show me the text'')) \<and>
   intent (classify (llm_answers (nan_answer ''text_extraction'')) ''I love this product!''
          (Some ''show me the text'')) = PStr ''text_extraction'' \<and>
   response_field
     (fst (clarify_intent (example_env (llm_answers (nan_answer ''text_extraction''))) submitted_state
        ''show me the text'' ''s1'')) ''status'' = Some (PStr ''error'') \<and>
   response_field
     (fst (clarify_intent (example_env (llm_answers (nan_answer ''text_extraction''))) submitted_state
        ''show me the text'' ''s1'')) ''extraction_metadata'' = None"
    by (simp add: classify_nan clarify_intent_def submitted_lookup example_env_def Let_def
        execute_def task_map_def handle_text_extraction_def respond_cases server_error_def
        response_field_def)
  with submit_example show ?thesis by blast
qed

subsection \<open>Repeated clarification\<close>

text \<open>
  Claim C3. While a context is stored, any number of clarify rounds whose classification asks for
  clarification again leave the stored contexts as they are, and each round classifies the stored
  content with that round's clarification text. A clarify request changes the stored contexts only
  when its classification resolves and the dispatch returns a result: then only the context of
  this session id is removed, after the classifier and the router were called on the stored
  content.
\<close>

theorem clarification_rounds_keep_context:
  assumes "conversation_contexts st sid = Some ctx"
  shows "((\<forall>(env, clar) \<in> set rounds.
            needs_clarification (classify (classifier env) (extracted_content ctx) (Some clar))) \<longrightarrow>
          conversation_contexts (clarify_rounds st sid rounds) = conversation_contexts st \<and>
          calls (clarify_rounds st sid rounds) =
            calls st @ map (\<lambda>(env, clar). ClassifyCall (extracted_content ctx) (Some clar)) rounds) \<and>
         (\<forall>env clar.
            conversation_contexts (snd (clarify_intent env st clar sid)) \<noteq> conversation_contexts st \<longrightarrow>
            \<not> needs_clarification (classify (classifier env) (extracted_content ctx) (Some clar)) \<and>
            (\<exists>final. execute (tasks env) (intent (classify (classifier env) (extracted_content ctx) (Some clar)))
                       (extracted_content ctx) (Some clar) = Inr final) \<and>
            conversation_contexts (snd (clarify_intent env st clar sid)) =
              (conversation_contexts st)(sid := None) \<and>
            calls (snd (clarify_intent env st clar sid)) =
              calls st @
                [ClassifyCall (extracted_content ctx) (Some clar),
                 ExecuteCall (intent (classify (classifier env) (extracted_content ctx) (Some clar)))
                   (extracted_content ctx) (Some clar)])"
proof (intro conjI impI allI)
  assume "\<forall>(env, clar) \<in> set rounds.
            needs_clarification (classify (classifier env) (extracted_content ctx) (Some clar))"
  with assms have "conversation_contexts (clarify_rounds st sid rounds) = conversation_contexts st \<and>
          calls (clarify_rounds st sid rounds) =
            calls st @ map (\<lambda>(env, clar). ClassifyCall (extracted_content ctx) (Some clar)) rounds"
  proof (induction rounds arbitrary: st)
    case Nil
    then show ?case by simp
  next
    case (Cons r rounds)
    obtain env clar where r: "r = (env, clar)" by (cases r)
    from Cons.prems r have nc: "needs_clarification (classify (classifier env) (extracted_content ctx) (Some clar))"
      by simp
    let ?st' = "st\<lparr>calls := calls st @ [ClassifyCall (extracted_content ctx) (Some clar)]\<rparr>"
    from clarify_still_unclear [OF Cons.prems(1) nc]
    have step: "snd (clarify_intent env st clar sid) = ?st'" by simp
    have "conversation_contexts ?st' sid = Some ctx" using Cons.prems(1) by simp
    moreover from Cons.prems have "\<forall>(env, clar) \<in> set rounds.
        needs_clarification (classify (classifier env) (extracted_content ctx) (Some clar))" by simp
    ultimately have "conversation_contexts (clarify_rounds ?st' sid rounds) = conversation_contexts ?st' \<and>
          calls (clarify_rounds ?st' sid rounds) =
            calls ?st' @ map (\<lambda>(env, clar). ClassifyCall (extracted_content ctx) (Some clar)) rounds"
      by (rule Cons.IH)
    then show ?case by (simp add: r step)
  qed
  then show "conversation_contexts (clarify_rounds st sid rounds) = conversation_contexts st"
    and "calls (clarify_rounds st sid rounds) =
            calls st @ map (\<lambda>(env, clar). ClassifyCall (extracted_content ctx) (Some clar)) rounds"
    by simp_all
next
  fix env clar
  assume ch: "conversation_contexts (snd (clarify_intent env st clar sid)) \<noteq> conversation_contexts st"
  let ?r = "classify (classifier env) (extracted_content ctx) (Some clar)"
  show nn: "\<not> needs_clarification ?r"
  proof
    assume "needs_clarification ?r"
    from clarify_still_unclear [OF assms this] ch show False by simp
  qed
  show ex: "\<exists>final. execute (tasks env) (intent ?r) (extracted_content ctx) (Some clar) = Inr final"
  proof (cases "execute (tasks env) (intent ?r) (extracted_content ctx) (Some clar)")
    case (Inl e)
    from clarify_dispatch_error [OF assms nn Inl] ch show ?thesis by auto
  next
    case (Inr final)
    then show ?thesis by blast
  qed
  then obtain final where "execute (tasks env) (intent ?r) (extracted_content ctx) (Some clar) = Inr final"
    by blast
  from clarify_resolved_state [OF assms nn this]
  show "conversation_contexts (snd (clarify_intent env st clar sid)) = (conversation_contexts st)(sid := None)"
    and "calls (snd (clarify_intent env st clar sid)) =
              calls st @
                [ClassifyCall (extracted_content ctx) (Some clar),
                 ExecuteCall (intent ?r) (extracted_content ctx) (Some clar)]"
    by simp_all
qed

theorem clarification_rounds_keep_context_witness:
  "conversation_contexts
     (clarify_rounds submitted_state ''s1''
        [(example_env llm_down, ''hmm''), (example_env llm_down, ''not sure'')]) =
     conversation_contexts submitted_state \<and>
   calls (clarify_rounds submitted_state ''s1''
        [(example_env llm_down, ''hmm''), (example_env llm_down, ''not sure'')]) =
     [ClassifyCall ''I love this product!'' (Some ''I love this product!''),
      ClassifyCall ''I love this product!'' (Some ''hmm''),
      ClassifyCall ''I love this product!'' (Some ''not sure'')] \<and>
   conversation_contexts
     (snd (clarify_intent (example_env (llm_answers (resolved_answer ''qa''))) submitted_state
        ''what is this about?'' ''s1'')) \<noteq> conversation_contexts submitted_state \<and>
   conversation_contexts
     (snd (clarify_intent (example_env (llm_answers (resolved_answer ''qa''))) submitted_state
        ''what is this about?'' ''s1'')) = (conversation_contexts submitted_state)(''s1'' := None)"
proof -
  let ?rounds = "[(example_env llm_down, ''hmm''), (example_env llm_down, ''not sure'')]"
  let ?env = "example_env (llm_answers (resolved_answer ''qa''))"
  let ?ctx = "\<lparr>extracted_content = ''I love this product!'', extraction_metadata = [(''type'', PStr ''text'')]\<rparr>"
  note rounds_fact = clarification_rounds_keep_context [OF submitted_lookup, of ?rounds]
  have all: "\<forall>(env, clar) \<in> set ?rounds.
      needs_clarification (classify (classifier env) (extracted_content ?ctx) (Some clar))"
    by (simp add: example_env_def classify_down get_fallback_intent_def)
  with rounds_fact have a: "conversation_contexts (clarify_rounds submitted_state ''s1'' ?rounds) =
      conversation_contexts submitted_state \<and>
      calls (clarify_rounds submitted_state ''s1'' ?rounds) =
        calls submitted_state @ map (\<lambda>(env, clar). ClassifyCall (extracted_content ?ctx) (Some clar)) ?rounds"
    by blast
  have changed: "conversation_contexts (snd (clarify_intent ?env submitted_state ''what is this about?'' ''s1''))
      \<noteq> conversation_contexts submitted_state"
  proof
    assume "conversation_contexts (snd (clarify_intent ?env submitted_state ''what is this about?'' ''s1''))
      = conversation_contexts submitted_state"
    then have "conversation_contexts (snd (clarify_intent ?env submitted_state ''what is this about?'' ''s1'')) ''s1''
      = conversation_contexts submitted_state ''s1''" by simp
    then show False
      by (simp add: clarify_intent_def submitted_lookup example_env_def classify_resolved Let_def
          execute_def task_map_def handle_qa_def tasks_answer_def ebind_def dict_get_def respond_def
          json_response_def server_error_def split: if_splits)
  qed
  with rounds_fact have "conversation_contexts (snd (clarify_intent ?env submitted_state ''what is this about?'' ''s1''))
      = (conversation_contexts submitted_state)(''s1'' := None)"
    by blast
  with a changed show ?thesis by (simp add: submitted_state_def)
qed

section \<open>The minimum content length\<close>

text \<open>
  Claim C7, as amended. When extraction yields content whose stripped length is below 5, the
  request ends with the \<^verbatim>\<open>error\<close> response and the state, with its record of calls, is
  unchanged; when the stripped length is 5 or more, the classifier is called on the content. The
  other requests that end before classification are those whose extraction step raises an
  \<^verbatim>\<open>HTTPException\<close> 400.
\<close>

theorem process_input_length_gate:
  "(case extract_content (extractors env) t f [PStr ''Processing your request...''] of
      (Inl e, logs) \<Rightarrow>
        (\<exists>detail. e = HTTPException 400 detail) \<and> process_input env st t f sid = (Inl e, st)
    | (Inr (content, metadata), logs) \<Rightarrow>
        if length (strip content) < 5 then
          process_input env st t f sid =
            (Inr (JSONResponse
                    [(''status'', PStr ''error''),
                     (''message'', PStr ''Could not extract meaningful content from input''),
                     (''logs'', PList (logs @ [PStr ''Warning: Very little content extracted'']))]
                    200),
             st)
        else
          \<exists>rest. calls (snd (process_input env st t f sid)) =
                   calls st @ ClassifyCall content t # rest)"
proof (cases "extract_content (extractors env) t f [PStr ''Processing your request...'']")
  case (Pair r logs)
  show ?thesis
  proof (cases r)
    case (Inl e)
    with Pair have "extract_content (extractors env) t f [PStr ''Processing your request...''] = (Inl e, logs)"
      by simp
    from extract_content_raises [OF this] Pair Inl
    show ?thesis by (simp add: process_input_def)
  next
    case (Inr cm)
    obtain content metadata where cm: "cm = (content, metadata)" by (cases cm)
    show ?thesis
    proof (cases "length (strip content) < 5")
      case True
      from Pair have "list_all json_safe logs"
        by (rule extract_content_logs_safe) simp
      with True Pair Inr cm show ?thesis by (simp add: process_input_def Let_def respond_cases)
    next
      case False
      then have "content \<noteq> []" using strip_short by blast
      with False Pair Inr cm show ?thesis
        by (auto simp: process_input_def Let_def split: sum.splits)
    qed
  qed
qed

theorem process_input_length_gate_witness:
  "(\<exists>rest. calls (snd (process_input (example_env llm_down) empty_state (Some ''hello'') None ''default'')) =
       ClassifyCall ''hello'' (Some ''hello'') # rest) \<and>
   process_input (example_env llm_down) empty_state (Some '' hi  '') None ''default'' =
     (Inr (JSONResponse
             [(''status'', PStr ''error''),
              (''message'', PStr ''Could not extract meaningful content from input''),
              (''logs'', PList [PStr ''Processing your request...'', PStr ''Processing text input...'',
                               PStr ''Warning: Very little content extracted''])]
             200),
      empty_state)"
proof -
  have e1: "extract_content (extractors (example_env llm_down)) (Some ''hello'') None
      [PStr ''Processing your request...''] =
      (Inr (''hello'', [(''type'', PStr ''text'')]),
       [PStr ''Processing your request...'', PStr ''Processing text input...''])"
    by (simp add: extract_content_def hello_facts)
  have e2: "extract_content (extractors (example_env llm_down)) (Some '' hi  '') None
      [PStr ''Processing your request...''] =
      (Inr ('' hi  '', [(''type'', PStr ''text'')]),
       [PStr ''Processing your request...'', PStr ''Processing text input...''])"
    by (simp add: extract_content_def hello_facts)
  from process_input_length_gate [where env = "example_env llm_down" and t = "Some ''hello''"
      and f = None and st = empty_state and sid = "''default''"]
  have a: "\<exists>rest. calls (snd (process_input (example_env llm_down) empty_state (Some ''hello'') None ''default'')) =
       ClassifyCall ''hello'' (Some ''hello'') # rest"
    by (simp add: e1 hello_facts empty_state_def)
  from process_input_length_gate [where env = "example_env llm_down" and t = "Some '' hi  ''"
      and f = None and st = empty_state and sid = "''default''"]
  have b: "process_input (example_env llm_down) empty_state (Some '' hi  '') None ''default'' =
     (Inr (JSONResponse
             [(''status'', PStr ''error''),
              (''message'', PStr ''Could not extract meaningful content from input''),
              (''logs'', PList [PStr ''Processing your request...'', PStr ''Processing text input...'',
                               PStr ''Warning: Very little content extracted''])]
             200),
      empty_state)"
    by (simp add: e2 hello_facts)
  from a b show ?thesis by blast
qed

text \<open>
  Claim C7 as stated fails: a request with no text and no file ends in an error before
  classification, and the length check is not what ended it.
\<close>

theorem bypass_without_length_check_counterexample:
  "process_input (example_env llm_down) empty_state None None ''default'' =
     (Inl (HTTPException 400 ''No input provided (text or file required)''), empty_state) \<and>
   fst (extract_content (extractors (example_env llm_down)) None None [PStr ''Processing your request...'']) =
     Inl (HTTPException 400 ''No input provided (text or file required)'') \<and>
   calls (snd (process_input (example_env llm_down) empty_state None None ''default'')) = []"
  by (simp add: process_input_def extract_content_def empty_state_def)

section \<open>The shape of the responses\<close>

text \<open>
  Claim C8, as amended. A response of the clarify endpoint is tagged \<^verbatim>\<open>needs_clarification\<close>,
  \<^verbatim>\<open>success\<close> or \<^verbatim>\<open>error\<close>, as a response of the submit endpoint is, unless the
  endpoint raises. Its fields are its own: a \<^verbatim>\<open>needs_clarification\<close> response of clarify
  has the status, the question and the logs, while the one of submit also has the content
  preview, the extraction metadata, the reasoning and the session id.
\<close>

theorem clarify_response_shape:
  "(response_field (fst (clarify_intent env st clar sid)) ''status'' = Some (PStr ''needs_clarification'') \<longrightarrow>
      response_keys (fst (clarify_intent env st clar sid)) = [''status'', ''question'', ''logs'']) \<and>
   (response_field (fst (clarify_intent env st clar sid)) ''status'' = Some (PStr ''success'') \<longrightarrow>
      response_keys (fst (clarify_intent env st clar sid)) =
        [''status'', ''extracted_content'', ''extraction_metadata'', ''intent'', ''result'', ''logs'']) \<and>
   (response_field (fst (clarify_intent env st clar sid)) ''status'' = Some (PStr ''error'') \<longrightarrow>
      response_keys (fst (clarify_intent env st clar sid)) = [''status'', ''message'', ''logs'']) \<and>
   ((\<exists>e. fst (clarify_intent env st clar sid) = Inl e) \<or>
    response_field (fst (clarify_intent env st clar sid)) ''status'' \<in>
      {Some (PStr ''needs_clarification''), Some (PStr ''success''), Some (PStr ''error'')}) \<and>
   (response_field (fst (process_input env' st' t f sid')) ''status'' = Some (PStr ''needs_clarification'') \<longrightarrow>
      response_keys (fst (process_input env' st' t f sid')) =
        [''status'', ''extracted_content'', ''extraction_metadata'', ''question'', ''reasoning'',
         ''logs'', ''session_id''])"
proof -
  have clar: "(response_field (fst (clarify_intent env st clar sid)) ''status'' = Some (PStr ''needs_clarification'') \<longrightarrow>
      response_keys (fst (clarify_intent env st clar sid)) = [''status'', ''question'', ''logs'']) \<and>
   (response_field (fst (clarify_intent env st clar sid)) ''status'' = Some (PStr ''success'') \<longrightarrow>
      response_keys (fst (clarify_intent env st clar sid)) =
        [''status'', ''extracted_content'', ''extraction_metadata'', ''intent'', ''result'', ''logs'']) \<and>
   (response_field (fst (clarify_intent env st clar sid)) ''status'' = Some (PStr ''error'') \<longrightarrow>
      response_keys (fst (clarify_intent env st clar sid)) = [''status'', ''message'', ''logs'']) \<and>
   ((\<exists>e. fst (clarify_intent env st clar sid) = Inl e) \<or>
    response_field (fst (clarify_intent env st clar sid)) ''status'' \<in>
      {Some (PStr ''needs_clarification''), Some (PStr ''success''), Some (PStr ''error'')})"
    by (simp add: clarify_intent_def Let_def server_error_def response_field_def response_keys_def
        respond_def json_response_def split: option.splits sum.splits)
  have sub: "response_field (fst (process_input env' st' t f sid')) ''status'' = Some (PStr ''needs_clarification'') \<longrightarrow>
      response_keys (fst (process_input env' st' t f sid')) =
        [''status'', ''extracted_content'', ''extraction_metadata'', ''question'', ''reasoning'',
         ''logs'', ''session_id'']"
  proof
    assume a: "response_field (fst (process_input env' st' t f sid')) ''status'' = Some (PStr ''needs_clarification'')"
    obtain r st1 where p: "process_input env' st' t f sid' = (r, st1)" by (cases "process_input env' st' t f sid'")
    with a obtain d c where r: "r = Inr (JSONResponse d c)"
      by (cases r; cases "projr r") (auto simp: response_field_def)
    with a p have "map_of d ''status'' = Some (PStr ''needs_clarification'')"
      by (simp add: response_field_def)
    from process_input_needs_clarification [OF p [unfolded r] this]
    show "response_keys (fst (process_input env' st' t f sid')) =
        [''status'', ''extracted_content'', ''extraction_metadata'', ''question'', ''reasoning'',
         ''logs'', ''session_id'']"
      by (auto simp: p r response_keys_def)
  qed
  from clar sub show ?thesis by blast
qed

lemma clarify_down_example:
  "fst (clarify_intent (example_env llm_down) submitted_state ''hmm'' ''s1'') =
     Inr (JSONResponse
            [(''status'', PStr ''needs_clarification''),
             (''question'', clarification_question get_fallback_intent),
             (''logs'', PList [PStr ''Processing your clarification...'',
                               PStr ''Re-analyzing intent with your clarification...'',
                               PStr ''Still need more clarification''])]
            200)"
  by (simp add: clarify_intent_def submitted_lookup example_env_def classify_down Let_def
      get_fallback_intent_def respond_cases)

theorem clarify_response_shape_witness:
  "response_field (fst (clarify_intent (example_env llm_down) submitted_state ''hmm'' ''s1'')) ''status'' =
     Some (PStr ''needs_clarification'') \<and>
   response_keys (fst (clarify_intent (example_env llm_down) submitted_state ''hmm'' ''s1'')) =
     [''status'', ''question'', ''logs''] \<and>
   response_field
     (fst (process_input (example_env llm_down) empty_state (Some ''I love this product!'') None ''s1''))
     ''status'' = Some (PStr ''needs_clarification'') \<and>
   response_keys
     (fst (process_input (example_env llm_down) empty_state (Some ''I love this product!'') None ''s1'')) =
     [''status'', ''extracted_content'', ''extraction_metadata'', ''question'', ''reasoning'',
      ''logs'', ''session_id'']"
proof -
  have a: "response_field (fst (clarify_intent (example_env llm_down) submitted_state ''hmm'' ''s1'')) ''status'' =
     Some (PStr ''needs_clarification'')"
    by (simp add: clarify_down_example response_field_def)
  have b: "response_field
     (fst (process_input (example_env llm_down) empty_state (Some ''I love this product!'') None ''s1''))
     ''status'' = Some (PStr ''needs_clarification'')"
    by (simp add: submit_example response_field_def)
  from a b clarify_response_shape [where env = "example_env llm_down" and st = submitted_state
      and clar = "''hmm''" and sid = "''s1''" and env' = "example_env llm_down" and st' = empty_state
      and t = "Some ''I love this product!''" and f = None and sid' = "''s1''"]
  show ?thesis by blast
qed

text \<open>
  Claim C8 as stated fails: the \<^verbatim>\<open>needs_clarification\<close> response of a clarify request has no
  session id, no reasoning and no content preview, which the one of the submit request has.
\<close>

theorem clarify_needs_clarification_fields_counterexample:
  "response_field (fst (clarify_intent (example_env llm_down) submitted_state ''hmm'' ''s1'')) ''status'' =
     Some (PStr ''needs_clarification'') \<and>
   response_field (fst (clarify_intent (example_env llm_down) submitted_state ''hmm'' ''s1'')) ''session_id'' = None \<and>
   response_field (fst (clarify_intent (example_env llm_down) submitted_state ''hmm'' ''s1'')) ''reasoning'' = None \<and>
   response_field (fst (clarify_intent (example_env llm_down) submitted_state ''hmm'' ''s1'')) ''extracted_content'' = None \<and>
   response_field
     (fst (process_input (example_env llm_down) empty_state (Some ''I love this product!'') None ''s1''))
     ''session_id'' = Some (PStr ''s1'')"
  by (simp add: clarify_down_example submit_example response_field_def)

section \<open>One context per session id\<close>

text \<open>
  Claim C10. When a submit request ends in \<^verbatim>\<open>needs_clarification\<close> and a second submit
  request with the same session id does so again, the context stored under the session id after
  the second request holds the second request's extracted content and metadata, in place of the
  first's. A clarify request that follows calls the classifier on the second content and, when
  the classification resolves, the router on the second content with the resolved intent, and
  makes no other call; when the router returns and the response can be serialised, the response
  is \<^verbatim>\<open>success\<close> with the preview of the second content, the second metadata and the
  router's result.
\<close>

theorem resubmit_overwrites_context:
  assumes "process_input env1 st0 t1 f1 sid = (Inr (JSONResponse d1 c1), st1)"
      and "map_of d1 ''status'' = Some (PStr ''needs_clarification'')"
      and "process_input env2 st1 t2 f2 sid = (Inr (JSONResponse d2 c2), st2)"
      and "map_of d2 ''status'' = Some (PStr ''needs_clarification'')"
  shows "\<exists>ctx1 content2 metadata2 logs2.
           conversation_contexts st1 sid = Some ctx1 \<and>
           extract_content (extractors env2) t2 f2 [PStr ''Processing your request...''] =
             (Inr (content2, metadata2), logs2) \<and>
           conversation_contexts st2 =
             (conversation_contexts st1)
               (sid \<mapsto> \<lparr>extracted_content = content2, extraction_metadata = metadata2\<rparr>) \<and>
           (\<forall>env3 clar.
              calls (snd (clarify_intent env3 st2 clar sid)) =
                calls st2 @
                  (if needs_clarification (classify (classifier env3) content2 (Some clar))
                   then [ClassifyCall content2 (Some clar)]
                   else [ClassifyCall content2 (Some clar),
                         ExecuteCall (intent (classify (classifier env3) content2 (Some clar)))
                           content2 (Some clar)]) \<and>
              (\<forall>final.
                 \<not> needs_clarification (classify (classifier env3) content2 (Some clar)) \<and>
                 execute (tasks env3) (intent (classify (classifier env3) content2 (Some clar)))
                   content2 (Some clar) = Inr final \<and>
                 json_safe (intent (classify (classifier env3) content2 (Some clar))) \<and>
                 json_safe (PFloat (confidence (classify (classifier env3) content2 (Some clar)))) \<and>
                 json_safe (PDict final) \<longrightarrow>
                 response_field (fst (clarify_intent env3 st2 clar sid)) ''status'' =
                   Some (PStr ''success'') \<and>
                 response_field (fst (clarify_intent env3 st2 clar sid)) ''extracted_content'' =
                   Some (PStr (preview 1000 content2)) \<and>
                 response_field (fst (clarify_intent env3 st2 clar sid)) ''extraction_metadata'' =
                   Some (PDict metadata2) \<and>
                 response_field (fst (clarify_intent env3 st2 clar sid)) ''result'' =
                   Some (PDict final)) \<and>
              (response_field (fst (clarify_intent env3 st2 clar sid)) ''status'' = Some (PStr ''success'') \<longrightarrow>
               response_field (fst (clarify_intent env3 st2 clar sid)) ''extraction_metadata'' =
                 Some (PDict metadata2)))"
proof -
  from process_input_needs_clarification [OF assms(1,2)]
  obtain content1 metadata1 where
    st1: "st1 = st0\<lparr>calls := calls st0 @ [ClassifyCall content1 t1],
                    conversation_contexts := (conversation_contexts st0)
                      (sid \<mapsto> \<lparr>extracted_content = content1, extraction_metadata = metadata1\<rparr>)\<rparr>"
    by blast
  from process_input_needs_clarification [OF assms(3,4)]
  obtain content2 metadata2 logs2 where
    ex2: "extract_content (extractors env2) t2 f2 [PStr ''Processing your request...''] =
             (Inr (content2, metadata2), logs2)"
    and st2: "st2 = st1\<lparr>calls := calls st1 @ [ClassifyCall content2 t2],
                    conversation_contexts := (conversation_contexts st1)
                      (sid \<mapsto> \<lparr>extracted_content = content2, extraction_metadata = metadata2\<rparr>)\<rparr>"
    and safe2: "json_safe (PDict metadata2)"
    by blast
  let ?ctx2 = "\<lparr>extracted_content = content2, extraction_metadata = metadata2\<rparr>"
  have stored1: "conversation_contexts st1 sid =
      Some \<lparr>extracted_content = content1, extraction_metadata = metadata1\<rparr>"
    by (simp add: st1)
  have stored2: "conversation_contexts st2 sid = Some ?ctx2" by (simp add: st2)
  have over: "conversation_contexts st2 = (conversation_contexts st1)(sid \<mapsto> ?ctx2)"
    by (simp add: st2)
  have a: "calls (snd (clarify_intent env3 st2 clar sid)) =
                calls st2 @
                  (if needs_clarification (classify (classifier env3) content2 (Some clar))
                   then [ClassifyCall content2 (Some clar)]
                   else [ClassifyCall content2 (Some clar),
                         ExecuteCall (intent (classify (classifier env3) content2 (Some clar)))
                           content2 (Some clar)])" for env3 clar
    using stored2 by (simp add: clarify_intent_def Let_def split: sum.splits)
  have b: "response_field (fst (clarify_intent env3 st2 clar sid)) ''status'' =
                   Some (PStr ''success'') \<and>
                 response_field (fst (clarify_intent env3 st2 clar sid)) ''extracted_content'' =
                   Some (PStr (preview 1000 content2)) \<and>
                 response_field (fst (clarify_intent env3 st2 clar sid)) ''extraction_metadata'' =
                   Some (PDict metadata2) \<and>
                 response_field (fst (clarify_intent env3 st2 clar sid)) ''result'' =
                   Some (PDict final)"
    if "\<not> needs_clarification (classify (classifier env3) content2 (Some clar)) \<and>
                 execute (tasks env3) (intent (classify (classifier env3) content2 (Some clar)))
                   content2 (Some clar) = Inr final \<and>
                 json_safe (intent (classify (classifier env3) content2 (Some clar))) \<and>
                 json_safe (PFloat (confidence (classify (classifier env3) content2 (Some clar)))) \<and>
                 json_safe (PDict final)" for env3 clar final
    using that stored2 safe2
    by (simp add: clarify_intent_def Let_def respond_cases response_field_def)
  have c: "response_field (fst (clarify_intent env3 st2 clar sid)) ''status'' = Some (PStr ''success'') \<longrightarrow>
               response_field (fst (clarify_intent env3 st2 clar sid)) ''extraction_metadata'' =
                 Some (PDict metadata2)" for env3 clar
    using stored2
    by (simp add: clarify_intent_def Let_def server_error_def response_field_def respond_def
        json_response_def split: sum.splits)
  from stored1 ex2 over a b c show ?thesis by blast
qed

lemma second_facts:
  "\<not> is_youtube_url ''def hello(): pass''" "strip ''def hello(): pass'' = ''def hello(): pass''"
  by code_simp+

lemma resubmit_example:
  "process_input (example_env llm_down) submitted_state (Some ''def hello(): pass'') None ''s1'' =
     (Inr (JSONResponse
        [(''status'', PStr ''needs_clarification''),
         (''extracted_content'', PStr ''def hello(): pass''),
         (''extraction_metadata'', PDict [(''type'', PStr ''text'')]),
         (''question'', clarification_question get_fallback_intent),
         (''reasoning'', reasoning get_fallback_intent),
         (''logs'', PList [PStr ''Processing your request...'', PStr ''Processing text input...'',
            PStr ''Analyzing your intent...'',
            PStr ''Intent classification failed, requesting clarification'',
            PStr ''Clarification needed from user'']),
         (''session_id'', PStr ''s1'')] 200),
      resubmitted_state)"
  by (simp add: process_input_def example_env_def extract_content_def second_facts classify_down
      get_fallback_intent_def preview_def submitted_state_def resubmitted_state_def respond_cases)

lemma explain_example:
  "execute tasks_answer (PStr ''code_explanation'') ''def hello(): pass'' (Some ''explain it'') =
     Inr [(''result_type'', PStr ''code_explanation''),
          (''analysis'', PDict [(''explanation'', PStr ''def hello(): pass''), (''success'', PBool True)]),
          (''success'', PBool True),
          (''task_type'', PStr ''code_explanation'')]"
  by (simp add: execute_def task_map_def handle_code_def tasks_answer_def ebind_def dict_get_def)

theorem resubmit_overwrites_context_witness:
  "conversation_contexts submitted_state ''s1'' =
     Some \<lparr>extracted_content = ''I love this product!'', extraction_metadata = [(''type'', PStr ''text'')]\<rparr> \<and>
   conversation_contexts resubmitted_state ''s1'' =
     Some \<lparr>extracted_content = ''def hello(): pass'', extraction_metadata = [(''type'', PStr ''text'')]\<rparr> \<and>
   calls (snd (clarify_intent (example_env (llm_answers (resolved_answer ''code_explanation'')))
        resubmitted_state ''explain it'' ''s1'')) =
     calls resubmitted_state @
       [ClassifyCall ''def hello(): pass'' (Some ''explain it''),
        ExecuteCall (PStr ''code_explanation'') ''def hello(): pass'' (Some ''explain it'')] \<and>
   response_field
     (fst (clarify_intent (example_env (llm_answers (resolved_answer ''code_explanation'')))
        resubmitted_state ''explain it'' ''s1'')) ''status'' = Some (PStr ''success'') \<and>
   response_field
     (fst (clarify_intent (example_env (llm_answers (resolved_answer ''code_explanation'')))
        resubmitted_state ''explain it'' ''s1'')) ''result'' =
     Some (PDict [(''result_type'', PStr ''code_explanation''),
          (''analysis'', PDict [(''explanation'', PStr ''def hello(): pass''), (''success'', PBool True)]),
          (''success'', PBool True),
          (''task_type'', PStr ''code_explanation'')])"
proof -
  let ?env3 = "example_env (llm_answers (resolved_answer ''code_explanation''))"
  let ?final = "[(''result_type'', PStr ''code_explanation''),
          (''analysis'', PDict [(''explanation'', PStr ''def hello(): pass''), (''success'', PBool True)]),
          (''success'', PBool True),
          (''task_type'', PStr ''code_explanation'')]"
  have e: "extract_content (extractors (example_env llm_down)) (Some ''def hello(): pass'') None
      [PStr ''Processing your request...''] =
      (Inr (''def hello(): pass'', [(''type'', PStr ''text'')]),
       [PStr ''Processing your request...'', PStr ''Processing text input...''])"
    by (simp add: extract_content_def second_facts)
  from resubmit_overwrites_context [OF submit_example _ resubmit_example]
  obtain content2 metadata2 logs2 where
    x: "extract_content (extractors (example_env llm_down)) (Some ''def hello(): pass'') None
         [PStr ''Processing your request...''] = (Inr (content2, metadata2), logs2)"
    and o: "conversation_contexts resubmitted_state =
         (conversation_contexts submitted_state)
           (''s1'' \<mapsto> \<lparr>extracted_content = content2, extraction_metadata = metadata2\<rparr>)"
    and c: "\<forall>env3 clar.
              calls (snd (clarify_intent env3 resubmitted_state clar ''s1'')) =
                calls resubmitted_state @
                  (if needs_clarification (classify (classifier env3) content2 (Some clar))
                   then [ClassifyCall content2 (Some clar)]
                   else [ClassifyCall content2 (Some clar),
                         ExecuteCall (intent (classify (classifier env3) content2 (Some clar)))
                           content2 (Some clar)]) \<and>
              (\<forall>final.
                 \<not> needs_clarification (classify (classifier env3) content2 (Some clar)) \<and>
                 execute (tasks env3) (intent (classify (classifier env3) content2 (Some clar)))
                   content2 (Some clar) = Inr final \<and>
                 json_safe (intent (classify (classifier env3) content2 (Some clar))) \<and>
                 json_safe (PFloat (confidence (classify (classifier env3) content2 (Some clar)))) \<and>
                 json_safe (PDict final) \<longrightarrow>
                 response_field (fst (clarify_intent env3 resubmitted_state clar ''s1'')) ''status'' =
                   Some (PStr ''success'') \<and>
                 response_field (fst (clarify_intent env3 resubmitted_state clar ''s1'')) ''extracted_content'' =
                   Some (PStr (preview 1000 content2)) \<and>
                 response_field (fst (clarify_intent env3 resubmitted_state clar ''s1'')) ''extraction_metadata'' =
                   Some (PDict metadata2) \<and>
                 response_field (fst (clarify_intent env3 resubmitted_state clar ''s1'')) ''result'' =
                   Some (PDict final)) \<and>
              (response_field (fst (clarify_intent env3 resubmitted_state clar ''s1'')) ''status'' =
                 Some (PStr ''success'') \<longrightarrow>
               response_field (fst (clarify_intent env3 resubmitted_state clar ''s1'')) ''extraction_metadata'' =
                 Some (PDict metadata2))"
    by auto
  from x e have c2: "content2 = ''def hello(): pass''" and m2: "metadata2 = [(''type'', PStr ''text'')]"
    by simp_all
  from o c2 m2 have stored: "conversation_contexts resubmitted_state ''s1'' =
     Some \<lparr>extracted_content = ''def hello(): pass'', extraction_metadata = [(''type'', PStr ''text'')]\<rparr>"
    by simp
  have r: "classify (classifier ?env3) ''def hello(): pass'' (Some ''explain it'') =
     \<lparr>intent = PStr ''code_explanation'', confidence = Finite 1, needs_clarification = False,
      clarification_question = PNone, reasoning = PStr ''explicit instruction'', success = True\<rparr>"
    by (simp add: example_env_def classify_resolved)
  have t: "tasks ?env3 = tasks_answer" by (simp add: example_env_def)
  from c [rule_format, of ?env3 "''explain it''"] c2
  have calls: "calls (snd (clarify_intent ?env3 resubmitted_state ''explain it'' ''s1'')) =
     calls resubmitted_state @
       [ClassifyCall ''def hello(): pass'' (Some ''explain it''),
        ExecuteCall (PStr ''code_explanation'') ''def hello(): pass'' (Some ''explain it'')]"
    by (simp add: r)
  have pre: "\<not> needs_clarification (classify (classifier ?env3) content2 (Some ''explain it'')) \<and>
                 execute (tasks ?env3) (intent (classify (classifier ?env3) content2 (Some ''explain it'')))
                   content2 (Some ''explain it'') = Inr ?final \<and>
                 json_safe (intent (classify (classifier ?env3) content2 (Some ''explain it''))) \<and>
                 json_safe (PFloat (confidence (classify (classifier ?env3) content2 (Some ''explain it'')))) \<and>
                 json_safe (PDict ?final)"
    by (simp add: c2 r t explain_example)
  with c have "response_field (fst (clarify_intent ?env3 resubmitted_state ''explain it'' ''s1'')) ''status'' =
                   Some (PStr ''success'') \<and>
      response_field (fst (clarify_intent ?env3 resubmitted_state ''explain it'' ''s1'')) ''result'' =
                   Some (PDict ?final)"
    by blast
  with stored submitted_lookup calls show ?thesis by blast
qed

section \<open>Short YouTube links inside a sentence\<close>

subsection \<open>The matcher\<close>

lemma rmatch_prefix: "(m, g) \<in> set (rmatch r s) \<Longrightarrow> take (length m) s = m \<and> length m \<le> length s"
proof (induction r arbitrary: m g s)
  case (Chr c)
  then show ?case by (auto split: list.splits if_splits)
next
  case (Seq r1 r2)
  from Seq.prems obtain m1 g1 m2 g2 where
    a: "(m1, g1) \<in> set (rmatch r1 s)" and b: "(m2, g2) \<in> set (rmatch r2 (drop (length m1) s))"
    and m: "m = m1 @ m2"
    by auto
  from Seq.IH(1) [OF a] have p1: "take (length m1) s = m1" "length m1 \<le> length s" by simp_all
  from Seq.IH(2) [OF b] have p2: "take (length m2) (drop (length m1) s) = m2"
    "length m2 \<le> length s - length m1" by simp_all
  have "take (length m1 + length m2) s = take (length m1) s @ take (length m2) (drop (length m1) s)"
    by (simp add: take_add)
  with p1 p2 m show ?case by simp
next
  case (Plus cls)
  then have "\<exists>n. n \<le> length (takeWhile cls s) \<and> m = take n s"
    by (auto simp: less_Suc_eq_le simp del: upt_Suc)
  then obtain n where n: "n \<le> length (takeWhile cls s)" "m = take n s" by blast
  have "length (takeWhile cls s) \<le> length s" by (rule length_takeWhile_le)
  with n show ?case by simp
qed auto

lemma isspace_lower: "isspace w \<Longrightarrow> lower_char w = w"
  by (auto simp: isspace_def lower_char_def)

lemma rmatch_local:
  "nows r \<Longrightarrow> isspace w \<Longrightarrow> rmatch r (a @ w # b) = rmatch r a"
proof (induction r arbitrary: a)
  case (Chr c)
  then show ?case by (cases a) (auto simp: isspace_lower)
next
  case (Seq r1 r2)
  then have n1: "nows r1" and n2: "nows r2" by simp_all
  have r1: "rmatch r1 (a @ w # b) = rmatch r1 a" using Seq.IH(1) n1 Seq.prems(2) by blast
  have "map (\<lambda>(m1, g1). map (\<lambda>(m2, g2). (m1 @ m2, g1 @ g2)) (rmatch r2 (drop (length m1) (a @ w # b))))
          (rmatch r1 a)
      = map (\<lambda>(m1, g1). map (\<lambda>(m2, g2). (m1 @ m2, g1 @ g2)) (rmatch r2 (drop (length m1) a)))
          (rmatch r1 a)"
  proof (rule map_cong [OF refl])
    fix x assume x: "x \<in> set (rmatch r1 a)"
    obtain m1 g1 where xm: "x = (m1, g1)" by (cases x)
    from x xm rmatch_prefix have "length m1 \<le> length a" by blast
    then have "drop (length m1) (a @ w # b) = drop (length m1) a @ w # b" by simp
    then have "rmatch r2 (drop (length m1) (a @ w # b)) = rmatch r2 (drop (length m1) a)"
      using Seq.IH(2) n2 Seq.prems(2) by simp
    then show "(case x of (m1, g1) \<Rightarrow> map (\<lambda>(m2, g2). (m1 @ m2, g1 @ g2)) (rmatch r2 (drop (length m1) (a @ w # b))))
       = (case x of (m1, g1) \<Rightarrow> map (\<lambda>(m2, g2). (m1 @ m2, g1 @ g2)) (rmatch r2 (drop (length m1) a)))"
      by (simp add: xm)
  qed
  then have "concat (map (\<lambda>(m1, g1). map (\<lambda>(m2, g2). (m1 @ m2, g1 @ g2)) (rmatch r2 (drop (length m1) (a @ w # b))))
          (rmatch r1 a))
      = concat (map (\<lambda>(m1, g1). map (\<lambda>(m2, g2). (m1 @ m2, g1 @ g2)) (rmatch r2 (drop (length m1) a)))
          (rmatch r1 a))"
    by (rule arg_cong)
  then show ?case by (simp only: rmatch.simps r1)
next
  case (Plus cls)
  then have "\<not> cls w" by auto
  then have tw: "takeWhile cls (a @ w # b) = takeWhile cls a" by (rule takeWhile_tail)
  have "map (\<lambda>n. (take n (a @ w # b), [] :: groups)) (rev [1..<Suc (length (takeWhile cls a))])
      = map (\<lambda>n. (take n a, [])) (rev [1..<Suc (length (takeWhile cls a))])"
  proof (rule map_cong [OF refl])
    fix n assume "n \<in> set (rev [1..<Suc (length (takeWhile cls a))])"
    then have "n \<le> length (takeWhile cls a)" by (auto simp: less_Suc_eq_le simp del: upt_Suc)
    moreover have "length (takeWhile cls a) \<le> length a" by (rule length_takeWhile_le)
    ultimately show "(take n (a @ w # b), [] :: groups) = (take n a, [])" by simp
  qed
  then show ?case by (simp only: rmatch.simps tw)
qed simp_all

lemma re_search_local:
  "nows r \<Longrightarrow> isspace w \<Longrightarrow>
   re_search r (a @ w # b) = (case re_search r a of Some m \<Rightarrow> Some m | None \<Rightarrow> re_search r (w # b))"
proof (induction a)
  case Nil
  from rmatch_local [OF Nil, of "[]" b] show ?case by (simp split: list.splits)
next
  case (Cons c cs)
  from rmatch_local [OF Cons.prems, of "c # cs" b] Cons.IH [OF Cons.prems]
  show ?case by (simp split: list.splits)
qed

lemma re_search_finds: "rmatch r t \<noteq> [] \<Longrightarrow> re_search r (p @ t) \<noteq> None"
proof (induction p)
  case Nil
  then show ?case by (cases t) (auto split: list.splits)
next
  case (Cons c p)
  then show ?case by (auto split: list.splits)
qed

lemma plus_head:
  assumes "takeWhile cls s = v" and "v \<noteq> []"
  shows "\<exists>ms. rmatch (Plus cls) s = (v, []) # ms"
proof -
  let ?k = "length v"
  from assms have k: "0 < ?k" by simp
  then have "[1..<Suc ?k] = [1..<?k] @ [?k]" by (simp add: Suc_leI)
  then have "rev [1..<Suc ?k] = ?k # rev [1..<?k]" by simp
  moreover have "take ?k s = v" using assms(1) takeWhile_eq_take [of cls s] by simp
  ultimately show ?thesis using assms(1) by simp
qed

lemma takeWhile_id:
  assumes "\<forall>c \<in> set v. cls c" and "suf = [] \<or> \<not> cls (hd suf)"
  shows "takeWhile cls (v @ suf) = v"
proof -
  from assms(2) have "takeWhile cls suf = []" by (cases suf) auto
  with assms(1) show ?thesis by (simp add: takeWhile_append2)
qed

lemma lower_literals:
  "lower_char CHR ''h'' = CHR ''h''" "lower_char CHR ''t'' = CHR ''t''" "lower_char CHR ''p'' = CHR ''p''"
  "lower_char CHR ''s'' = CHR ''s''" "lower_char CHR '':'' = CHR '':''" "lower_char CHR ''/'' = CHR ''/''"
  "lower_char CHR ''w'' = CHR ''w''" "lower_char CHR ''.'' = CHR ''.''" "lower_char CHR ''y'' = CHR ''y''"
  "lower_char CHR ''o'' = CHR ''o''" "lower_char CHR ''u'' = CHR ''u''" "lower_char CHR ''b'' = CHR ''b''"
  "lower_char CHR ''e'' = CHR ''e''" "lower_char CHR ''c'' = CHR ''c''" "lower_char CHR ''m'' = CHR ''m''"
  "lower_char CHR ''a'' = CHR ''a''" "lower_char CHR ''?'' = CHR ''?''" "lower_char CHR ''v'' = CHR ''v''"
  "lower_char CHR ''='' = CHR ''=''" "lower_char CHR ''d'' = CHR ''d''"
  by code_simp+

lemma head_at_link:
  "rmatch youtube_head (''https://youtu.be/'' @ t) =
     [(''https://youtu.be/'', [(1, ''https://''), (3, ''youtu.be/'')])]"
  by (simp add: youtube_head_def lower_literals)

lemma nows_patterns: "nows extract_pattern" "nows detect_pattern"
  by (simp_all add: extract_pattern_def detect_pattern_def youtube_head_def lower_literals isspace_def)

lemma no_empty_match: "rmatch extract_pattern [] = []" "rmatch detect_pattern [] = []"
  by code_simp+

lemma extract_empty_iff: "extract_youtube_url s = [] \<longleftrightarrow> re_search extract_pattern s = None"
  by (auto simp: extract_youtube_url_def split: option.splits)

lemma extract_match_at_link:
  assumes "vid \<noteq> []" and "\<forall>c \<in> set vid. \<not> isspace c \<and> c \<noteq> CHR ''&''"
      and "suf = [] \<or> isspace (hd suf)"
  shows "\<exists>ms. rmatch extract_pattern (''https://youtu.be/'' @ vid @ suf) =
           (''https://youtu.be/'' @ vid, [(1, ''https://''), (3, ''youtu.be/''), (4, vid)]) # ms"
proof -
  let ?cls = "\<lambda>c. \<not> isspace c \<and> c \<noteq> CHR ''&''"
  from assms(2,3) have "takeWhile ?cls (vid @ suf) = vid" by (intro takeWhile_id) auto
  from plus_head [OF this assms(1)] obtain ms where
    ms: "rmatch (Plus ?cls) (vid @ suf) = (vid, []) # ms" by blast
  have g4: "rmatch (Group 4 (Plus ?cls)) (vid @ suf) =
      (vid, [(4, vid)]) # map (\<lambda>(m, g). (m, g @ [(4, m)])) ms"
    unfolding rmatch.simps(7) ms by simp
  have a: "rmatch extract_pattern (''https://youtu.be/'' @ vid @ suf) =
      map (\<lambda>(m2, g2). (''https://youtu.be/'' @ m2, [(1, ''https://''), (3, ''youtu.be/'')] @ g2))
        (rmatch (Group 4 (Plus ?cls)) (vid @ suf))"
    unfolding extract_pattern_def rmatch.simps(3) head_at_link by simp
  show ?thesis unfolding a g4 by simp
qed

lemma detect_match_at_link:
  assumes "vid \<noteq> []" and "\<forall>c \<in> set vid. \<not> isspace c \<and> c \<noteq> CHR ''&''"
  shows "rmatch detect_pattern (''https://youtu.be/'' @ vid @ suf) \<noteq> []"
proof -
  obtain c cs where v: "vid = c # cs" using assms(1) by (cases vid) auto
  with assms(2) have c: "\<not> isspace c" by simp
  have nz: "takeWhile (\<lambda>c. \<not> isspace c) (vid @ suf) \<noteq> []" using c by (simp add: v)
  from plus_head [OF refl nz] obtain ms where
    ms: "rmatch (Plus (\<lambda>c. \<not> isspace c)) (vid @ suf) =
           (takeWhile (\<lambda>c. \<not> isspace c) (vid @ suf), []) # ms" by blast
  have a: "rmatch detect_pattern (''https://youtu.be/'' @ vid @ suf) =
      map (\<lambda>(m2, g2). (''https://youtu.be/'' @ m2, [(1, ''https://''), (3, ''youtu.be/'')] @ g2))
        (rmatch (Plus (\<lambda>c. \<not> isspace c)) (vid @ suf))"
    unfolding detect_pattern_def rmatch.simps(3) head_at_link by simp
  show ?thesis unfolding a ms by simp
qed

lemma search_skips_prefix:
  assumes "pre = [] \<or> isspace (last pre)" and "re_search extract_pattern pre = None"
  shows "re_search extract_pattern (pre @ rest) = re_search extract_pattern rest"
proof (cases "pre = []")
  case True
  then show ?thesis by simp
next
  case False
  with assms(1) obtain p w where pw: "pre = p @ [w]" "isspace w"
    by (metis append_butlast_last_id)
  from re_search_local [OF nows_patterns(1) pw(2), of p "[]"] assms(2) pw(1)
  have np: "re_search extract_pattern p = None" by (auto split: option.splits)
  from rmatch_local [OF nows_patterns(1) pw(2), of "[]" rest] no_empty_match(1)
  have "rmatch extract_pattern (w # rest) = []" by simp
  then have "re_search extract_pattern (w # rest) = re_search extract_pattern rest" by simp
  with re_search_local [OF nows_patterns(1) pw(2), of p rest] np pw(1)
  show ?thesis by simp
qed

lemma contains_youtu_be: "str_contains ''youtu.be'' (''https://youtu.be/'' @ v)"
  by simp

lemma search_keeps_earlier:
  assumes "pre = [] \<or> isspace (last pre)" and "re_search extract_pattern pre = Some m"
  shows "re_search extract_pattern (pre @ rest) = Some m"
proof (cases "pre = []")
  case True
  with assms(2) no_empty_match(1) show ?thesis by simp
next
  case False
  with assms(1) obtain p w where pw: "pre = p @ [w]" "isspace w"
    by (metis append_butlast_last_id)
  from rmatch_local [OF nows_patterns(1) pw(2), of "[]" "[]"] no_empty_match(1)
  have "rmatch extract_pattern [w] = []" by simp
  then have "re_search extract_pattern [w] = None" using no_empty_match(1) by simp
  with re_search_local [OF nows_patterns(1) pw(2), of p "[]"] assms(2) pw(1)
  have "re_search extract_pattern p = Some m" by (auto split: option.splits)
  with re_search_local [OF nows_patterns(1) pw(2), of p rest] pw(1)
  show ?thesis by simp
qed

subsection \<open>Detection and reconstruction\<close>

text \<open>
  Claim C9, as amended. Take a text in which \<^verbatim>\<open>https://youtu.be/\<close> with a video id follows a
  prefix that is empty or ends in whitespace, and is followed by a suffix that is empty or starts
  with whitespace; the id is not empty and has no whitespace and no \<^verbatim>\<open>&\<close>. Then
  \<^verbatim>\<open>is_youtube_url\<close> is true. When \<^verbatim>\<open>extract_youtube_url\<close> finds no link in the
  prefix, it returns \<^verbatim>\<open>https://www.youtube.com/watch?v=\<close> with the id; when it finds one
  there, it returns what it returns on the prefix alone.
\<close>

theorem youtu_be_link_detected_and_normalised:
  assumes "vid \<noteq> []" and "\<forall>c \<in> set vid. \<not> isspace c \<and> c \<noteq> CHR ''&''"
      and "pre = [] \<or> isspace (last pre)" and "suf = [] \<or> isspace (hd suf)"
  shows "is_youtube_url (pre @ ''https://youtu.be/'' @ vid @ suf) \<and>
         (extract_youtube_url pre = [] \<longrightarrow>
          extract_youtube_url (pre @ ''https://youtu.be/'' @ vid @ suf) =
            ''https://www.youtube.com/watch?v='' @ vid) \<and>
         (extract_youtube_url pre \<noteq> [] \<longrightarrow>
          extract_youtube_url (pre @ ''https://youtu.be/'' @ vid @ suf) = extract_youtube_url pre)"
proof (intro conjI)
  from re_search_finds [OF detect_match_at_link [OF assms(1,2)], of pre suf]
  show "is_youtube_url (pre @ ''https://youtu.be/'' @ vid @ suf)"
    by (simp add: is_youtube_url_def)
next
  show "extract_youtube_url pre = [] \<longrightarrow>
          extract_youtube_url (pre @ ''https://youtu.be/'' @ vid @ suf) =
            ''https://www.youtube.com/watch?v='' @ vid"
  proof
    assume "extract_youtube_url pre = []"
    then have none: "re_search extract_pattern pre = None" by (simp add: extract_empty_iff)
    from extract_match_at_link [OF assms(1,2,4)] obtain ms where
      ms: "rmatch extract_pattern (''https://youtu.be/'' @ vid @ suf) =
           (''https://youtu.be/'' @ vid, [(1, ''https://''), (3, ''youtu.be/''), (4, vid)]) # ms"
      by blast
    have "re_search extract_pattern (''https://youtu.be/'' @ vid @ suf) =
        Some (''https://youtu.be/'' @ vid, [(1, ''https://''), (3, ''youtu.be/''), (4, vid)])"
      using ms by simp
    with search_skips_prefix [OF assms(3) none, of "''https://youtu.be/'' @ vid @ suf"]
    have "re_search extract_pattern (pre @ ''https://youtu.be/'' @ vid @ suf) =
        Some (''https://youtu.be/'' @ vid, [(1, ''https://''), (3, ''youtu.be/''), (4, vid)])"
      by simp
    then show "extract_youtube_url (pre @ ''https://youtu.be/'' @ vid @ suf) =
            ''https://www.youtube.com/watch?v='' @ vid"
      using contains_youtu_be [of vid] by (simp add: extract_youtube_url_def group_str_def)
  qed
next
  show "extract_youtube_url pre \<noteq> [] \<longrightarrow>
          extract_youtube_url (pre @ ''https://youtu.be/'' @ vid @ suf) = extract_youtube_url pre"
  proof
    assume "extract_youtube_url pre \<noteq> []"
    then obtain m where m: "re_search extract_pattern pre = Some m"
      by (auto simp: extract_empty_iff)
    from search_keeps_earlier [OF assms(3) m, of "''https://youtu.be/'' @ vid @ suf"] m
    show "extract_youtube_url (pre @ ''https://youtu.be/'' @ vid @ suf) = extract_youtube_url pre"
      by (simp add: extract_youtube_url_def)
  qed
qed

lemma link_example_facts:
  "\<forall>c \<in> set ''XXXXXXXXXXX''. \<not> isspace c \<and> c \<noteq> CHR ''&''"
  "isspace (last ''Check out '')" "isspace (hd '' today'')"
  "extract_youtube_url ''Check out '' = []"
  by code_simp+

lemma earlier_example_facts:
  "isspace (last ''Earlier HTTPS://YOUTU.BE/abc then '')"
  "extract_youtube_url ''Earlier HTTPS://YOUTU.BE/abc then '' = ''https://HTTPS://YOUTU.BE/abc''"
  by code_simp+

theorem youtu_be_link_detected_and_normalised_witness:
  "is_youtube_url ''Check out https://youtu.be/XXXXXXXXXXX today'' \<and>
   extract_youtube_url ''Check out '' = [] \<and>
   extract_youtube_url ''Check out https://youtu.be/XXXXXXXXXXX today'' =
     ''https://www.youtube.com/watch?v=XXXXXXXXXXX'' \<and>
   extract_youtube_url ''Earlier HTTPS://YOUTU.BE/abc then '' = ''https://HTTPS://YOUTU.BE/abc'' \<and>
   extract_youtube_url ''Earlier HTTPS://YOUTU.BE/abc then https://youtu.be/XXXXXXXXXXX today'' =
     ''https://HTTPS://YOUTU.BE/abc''"
proof -
  have v: "''XXXXXXXXXXX'' \<noteq> []" by simp
  have p: "''Check out '' = [] \<or> isspace (last ''Check out '')" using link_example_facts(2) by blast
  have s: "'' today'' = [] \<or> isspace (hd '' today'')" using link_example_facts(3) by blast
  have p2: "''Earlier HTTPS://YOUTU.BE/abc then '' = [] \<or> isspace (last ''Earlier HTTPS://YOUTU.BE/abc then '')"
    using earlier_example_facts(1) by blast
  from youtu_be_link_detected_and_normalised [OF v link_example_facts(1) p s] link_example_facts(4)
  have a: "is_youtube_url ''Check out https://youtu.be/XXXXXXXXXXX today'' \<and>
      extract_youtube_url ''Check out https://youtu.be/XXXXXXXXXXX today'' =
        ''https://www.youtube.com/watch?v=XXXXXXXXXXX''"
    by simp
  from youtu_be_link_detected_and_normalised [OF v link_example_facts(1) p2 s] earlier_example_facts(2)
  have b: "extract_youtube_url ''Earlier HTTPS://YOUTU.BE/abc then https://youtu.be/XXXXXXXXXXX today'' =
     ''https://HTTPS://YOUTU.BE/abc''"
    by simp
  from a b link_example_facts(4) earlier_example_facts(2) show ?thesis by blast
qed

text \<open>
  Claim C9 as stated fails: when a link stands earlier in the text, \<^verbatim>\<open>re.search\<close> returns
  that one, and the reconstructed URL is not the one of the \<^verbatim>\<open>youtu.be\<close> link in question.
\<close>

theorem earlier_link_wins_counterexample:
  "is_youtube_url ''Earlier youtu.be/a then https://youtu.be/XXXXXXXXXXX today'' \<and>
   extract_youtube_url ''Earlier youtu.be/a then https://youtu.be/XXXXXXXXXXX today'' =
     ''https://www.youtube.com/watch?v=a'' \<and>
   extract_youtube_url ''Earlier youtu.be/a then https://youtu.be/XXXXXXXXXXX today'' \<noteq>
     ''https://www.youtube.com/watch?v=XXXXXXXXXXX''"
  by code_simp

end
